theory Spec2Isabelle
  imports Main
begin

section \<open>Python values used by the shell guard\<close>

text \<open>
  A Python \<open>str\<close> is modelled as a \<open>string\<close>, each \<open>char\<close> standing for the code
  point of the same number (0 to 255). The character classes below are Python's own for
  these code points: \<open>str.isspace\<close> (also what \<open>str.strip\<close> removes and what \<open>\s\<close>
  matches), the word characters of \<open>\w\<close> and \<open>\b\<close>, and \<open>str.lower\<close>.
\<close>

definition is_space :: "char \<Rightarrow> bool" where
  "is_space c = (of_char c \<in> {9, 10, 11, 12, 13, 28, 29, 30, 31, 32, 133, 160 :: nat})"

definition is_word :: "char \<Rightarrow> bool" where
  "is_word c =
     (let n = of_char c :: nat in
      (48 \<le> n \<and> n \<le> 57) \<or> (65 \<le> n \<and> n \<le> 90) \<or> n = 95 \<or> (97 \<le> n \<and> n \<le> 122) \<or>
      n \<in> {170, 178, 179, 181, 185, 186, 188, 189, 190} \<or>
      (192 \<le> n \<and> n \<noteq> 215 \<and> n \<noteq> 247))"

definition lower_char :: "char \<Rightarrow> char" where
  "lower_char c =
     (let n = of_char c :: nat in
      if (65 \<le> n \<and> n \<le> 90) \<or> (192 \<le> n \<and> n \<le> 222 \<and> n \<noteq> 215)
      then char_of (n + 32) else c)"

definition lower :: "string \<Rightarrow> string" where
  "lower s = map lower_char s"

text \<open>\<open>s.strip()\<close>: leading and trailing white space removed.\<close>

definition lstrip :: "string \<Rightarrow> string" where
  "lstrip s = dropWhile is_space s"

definition rstrip :: "string \<Rightarrow> string" where
  "rstrip s = rev (dropWhile is_space (rev s))"

definition strip :: "string \<Rightarrow> string" where
  "strip s = rstrip (lstrip s)"

text \<open>\<open>s.startswith(p)\<close>, \<open>s.endswith(p)\<close> and \<open>sub in s\<close>.\<close>

fun startswith :: "string \<Rightarrow> string \<Rightarrow> bool" where
  "startswith s [] = True"
| "startswith [] (p # ps) = False"
| "startswith (c # cs) (p # ps) = (c = p \<and> startswith cs ps)"

definition endswith :: "string \<Rightarrow> string \<Rightarrow> bool" where
  "endswith s p = startswith (rev s) (rev p)"

fun contains :: "string \<Rightarrow> string \<Rightarrow> bool" where
  "contains sub [] = (sub = [])"
| "contains sub (c # cs) = (startswith (c # cs) sub \<or> contains sub cs)"

text \<open>
  Truthiness of \<open>state.get(key)\<close> for a string-valued key: a missing key gives \<open>None\<close>,
  and both \<open>None\<close> and the empty string are false.
\<close>

fun truthy :: "string option \<Rightarrow> bool" where
  "truthy None = False"
| "truthy (Some s) = (s \<noteq> [])"

text \<open>\<open>state.get(key) or default\<close> and \<open>state.get(key, default)\<close>.\<close>

fun get_or :: "string option \<Rightarrow> string \<Rightarrow> string" where
  "get_or None d = d"
| "get_or (Some s) d = (if s = [] then d else s)"

fun get_default :: "string option \<Rightarrow> string \<Rightarrow> string" where
  "get_default None d = d"
| "get_default (Some s) d = s"

text \<open>
  Exceptions are values. \<open>LLMFault\<close> stands for an exception of the provider's client
  and \<open>OSError\<close> for one of the operating system; the payload is the message. \<open>err_str\<close>
  is \<open>str(e)\<close>: the message, and for a \<open>KeyError\<close> the key in quotes.
\<close>

datatype error =
    ValueError string
  | TimeoutError string
  | LLMFault string
  | KeyError string
  | IndexError string
  | AttributeError string
  | RuntimeError string
  | OSError string
  | EOFError

fun err_str :: "error \<Rightarrow> string" where
  "err_str (ValueError m) = m"
| "err_str (TimeoutError m) = m"
| "err_str (LLMFault m) = m"
| "err_str (KeyError k) = [CHR 0x27] @ k @ [CHR 0x27]"
| "err_str (IndexError m) = m"
| "err_str (AttributeError m) = m"
| "err_str (RuntimeError m) = m"
| "err_str (OSError m) = m"
| "err_str EOFError = ''EOF when reading a line''"

subsection \<open>Decoded JSON values\<close>

text \<open>
  What \<open>json.loads\<close> returns: \<open>None\<close>, a \<open>bool\<close>, an \<open>int\<close>, a \<open>float\<close> (given by its
  \<open>repr\<close>), a \<open>str\<close>, a \<open>list\<close>, or a \<open>dict\<close> as its items in order, with distinct
  keys. The answer of the provider is decoded to such a value, and the candidate fields
  of the state hold whatever the decoded object carries, string or not.
\<close>

datatype json =
    JNull
  | JBool bool
  | JInt int
  | JFloat string
  | JStr string
  | JArr "json list"
  | JObj "(string \<times> json) list"

text \<open>Truth value of a decoded value: \<open>bool(v)\<close>.\<close>

fun json_truthy :: "json \<Rightarrow> bool" where
  "json_truthy JNull = False"
| "json_truthy (JBool b) = b"
| "json_truthy (JInt i) = (i \<noteq> 0)"
| "json_truthy (JFloat r) = (r \<noteq> ''0.0'' \<and> r \<noteq> ''-0.0'')"
| "json_truthy (JStr s) = (s \<noteq> [])"
| "json_truthy (JArr xs) = (xs \<noteq> [])"
| "json_truthy (JObj kvs) = (kvs \<noteq> [])"

text \<open>
  For a key that holds such a value: the truth value of \<open>state.get(key)\<close>,
  \<open>state.get(key) or default\<close> and \<open>state.get(key, default)\<close>.
\<close>

fun truthy_value :: "json option \<Rightarrow> bool" where
  "truthy_value None = False"
| "truthy_value (Some v) = json_truthy v"

fun value_or :: "json option \<Rightarrow> json \<Rightarrow> json" where
  "value_or None d = d"
| "value_or (Some v) d = (if json_truthy v then v else d)"

fun value_default :: "json option \<Rightarrow> json \<Rightarrow> json" where
  "value_default None d = d"
| "value_default (Some v) d = v"

text \<open>
  Calling a method of \<open>str\<close> or \<open>dict\<close> on a value of another type raises
  \<open>AttributeError\<close>, whose message names the type. \<open>as_str a v\<close> is the text of \<open>v\<close> when
  \<open>v\<close> is a \<open>str\<close>, and the exception of \<open>v.a\<close> otherwise.
\<close>

fun type_name :: "json \<Rightarrow> string" where
  "type_name JNull = ''NoneType''"
| "type_name (JBool b) = ''bool''"
| "type_name (JInt i) = ''int''"
| "type_name (JFloat r) = ''float''"
| "type_name (JStr s) = ''str''"
| "type_name (JArr xs) = ''list''"
| "type_name (JObj kvs) = ''dict''"

definition no_attribute :: "json \<Rightarrow> string \<Rightarrow> error" where
  "no_attribute v a =
     AttributeError ([CHR 0x27] @ type_name v @ [CHR 0x27] @ '' object has no attribute '' @
       [CHR 0x27] @ a @ [CHR 0x27])"

definition as_str :: "string \<Rightarrow> json \<Rightarrow> error + string" where
  "as_str a v = (case v of JStr s \<Rightarrow> Inr s | _ \<Rightarrow> Inl (no_attribute v a))"

text \<open>
  \<open>str(v)\<close>, as an f-string formats a value: a \<open>str\<close> is its own text, any other value
  its \<open>repr\<close>. The \<open>repr\<close> of a string inside a list or a dictionary (quoting and
  escapes) is left to a parameter.
\<close>

fun nat_str :: "nat \<Rightarrow> string" where
  "nat_str n =
     (if n < 10 then [char_of (48 + n)] else nat_str (n div 10) @ [char_of (48 + n mod 10)])"

definition int_str :: "int \<Rightarrow> string" where
  "int_str i = (if i < 0 then CHR ''-'' # nat_str (nat (- i)) else nat_str (nat i))"

fun join_with :: "string \<Rightarrow> string list \<Rightarrow> string" where
  "join_with sep [] = []"
| "join_with sep [l] = l"
| "join_with sep (l # m # ls) = l @ sep @ join_with sep (m # ls)"

fun py_repr :: "(string \<Rightarrow> string) \<Rightarrow> json \<Rightarrow> string" where
  "py_repr q JNull = ''None''"
| "py_repr q (JBool b) = (if b then ''True'' else ''False'')"
| "py_repr q (JInt i) = int_str i"
| "py_repr q (JFloat r) = r"
| "py_repr q (JStr s) = q s"
| "py_repr q (JArr xs) = ''['' @ join_with '', '' (map (py_repr q) xs) @ '']''"
| "py_repr q (JObj kvs) =
     ''{'' @ join_with '', '' (map (\<lambda>kv. q (fst kv) @ '': '' @ py_repr q (snd kv)) kvs) @ ''}''"

definition py_str :: "(string \<Rightarrow> string) \<Rightarrow> json \<Rightarrow> string" where
  "py_str q v = (case v of JStr s \<Rightarrow> s | _ \<Rightarrow> py_repr q v)"

section \<open>Regular expressions (the fragment of \<open>re\<close> that safety.py uses)\<close>

text \<open>
  The patterns of safety.py use literals, character classes, \<open>\b\<close>, \<open>$\<close>, grouping,
  alternation, \<open>?\<close>, \<open>*\<close> and \<open>+\<close>, and no flags. A position in the subject is the
  character before it (if any) and the text after it; \<open>ends r q\<close> lists the positions at
  which a match of \<open>r\<close> that starts at \<open>q\<close> can end. \<open>re.search\<close> succeeds when a match
  exists from some start position; without back-references this does not depend on the
  order in which a backtracking matcher tries the alternatives.
\<close>

datatype regex =
    Eps
  | Chr char
  | Cls "char \<Rightarrow> bool"
  | WordB
  | Eol
  | Seq regex regex
  | Alt regex regex
  | Star regex

type_synonym pos = "char option \<times> string"

fun word_before :: "char option \<Rightarrow> bool" where
  "word_before None = False"
| "word_before (Some c) = is_word c"

fun word_after :: "string \<Rightarrow> bool" where
  "word_after [] = False"
| "word_after (c # cs) = is_word c"

text \<open>
  \<open>WordB\<close> is \<open>\b\<close>: exactly one side of the position is a word character. \<open>Eol\<close> is
  \<open>$\<close> without MULTILINE: the end of the text, or just before a final newline. An
  iteration of \<open>Star\<close> that consumes nothing adds no new end position and is dropped.
\<close>

fun ends :: "regex \<Rightarrow> pos \<Rightarrow> pos list" where
  "ends Eps q = [q]"
| "ends (Chr c) (p, s) =
     (case s of [] \<Rightarrow> [] | x # xs \<Rightarrow> if x = c then [(Some x, xs)] else [])"
| "ends (Cls P) (p, s) =
     (case s of [] \<Rightarrow> [] | x # xs \<Rightarrow> if P x then [(Some x, xs)] else [])"
| "ends WordB (p, s) = (if word_before p \<noteq> word_after s then [(p, s)] else [])"
| "ends Eol (p, s) = (if s = [] \<or> s = [CHR 0x0A] then [(p, s)] else [])"
| "ends (Seq a b) q = remdups (concat (map (ends b) (ends a q)))"
| "ends (Alt a b) q = remdups (ends a q @ ends b q)"
| "ends (Star a) q =
     remdups (q # concat (map (ends (Star a))
        (filter (\<lambda>q'. length (snd q') < length (snd q)) (ends a q))))"

fun search_from :: "regex \<Rightarrow> pos \<Rightarrow> bool" where
  "search_from r (p, []) = (ends r (p, []) \<noteq> [])"
| "search_from r (p, c # cs) = (ends r (p, c # cs) \<noteq> [] \<or> search_from r (Some c, cs))"

definition re_search :: "regex \<Rightarrow> string \<Rightarrow> bool" where
  "re_search r s = search_from r (None, s)"

fun lit :: "string \<Rightarrow> regex" where
  "lit [] = Eps"
| "lit (c # cs) = Seq (Chr c) (lit cs)"

fun seqs :: "regex list \<Rightarrow> regex" where
  "seqs [] = Eps"
| "seqs (r # rs) = Seq r (seqs rs)"

definition opt :: "regex \<Rightarrow> regex" where
  "opt r = Alt r Eps"

definition plus :: "regex \<Rightarrow> regex" where
  "plus r = Seq r (Star r)"

definition in_range :: "char \<Rightarrow> char \<Rightarrow> char \<Rightarrow> bool" where
  "in_range a b c = ((of_char a :: nat) \<le> of_char c \<and> (of_char c :: nat) \<le> of_char b)"

definition not_nl :: regex where
  "not_nl = Cls (\<lambda>c. c \<noteq> CHR 0x0A)"

definition sp :: regex where
  "sp = Cls is_space"

definition wd :: regex where
  "wd = Cls is_word"

section \<open>The safety classifier (safety.py)\<close>

text \<open>The thirteen signatures of \<open>DANGEROUS_PATTERNS\<close>, in the order of the source.\<close>

definition DANGEROUS_PATTERNS :: "(regex \<times> string) list" where
  "DANGEROUS_PATTERNS = [
    (seqs [WordB, lit ''rm'', WordB, Star not_nl, WordB,
           Alt (lit ''-rf'') (lit ''--no-preserve-root''), WordB, Star not_nl,
           Chr CHR ''/'', Star sp, Eol],
     ''Recursive delete from root''),
    (seqs [WordB, lit ''rm'', WordB, Star not_nl, WordB, opt (lit ''-rf''), WordB, plus sp,
           Alt (lit ''*/*'') (seqs [Chr CHR ''*'', Star sp, Eol])],
     ''Wildcard recursive delete''),
    (seqs [WordB, lit ''dd'', WordB, Star not_nl, opt (lit ''of=''), lit ''/dev/sd'',
           Cls (in_range CHR ''a'' CHR ''z''), WordB],
     ''Raw disk write with dd''),
    (seqs [WordB, lit ''mkfs'', Chr CHR ''.'',
           plus (Cls (\<lambda>c. in_range CHR ''a'' CHR ''z'' c \<or> in_range CHR ''0'' CHR ''9'' c)),
           WordB],
     ''Filesystem creation (mkfs)''),
    (seqs [WordB, Chr CHR '':'', Star sp, lit ''()'', Star sp, Chr CHR ''{'', Star sp,
           lit '':|:'', Star sp, Chr CHR '';'', Star sp, Chr CHR ''}'', Star sp,
           Chr CHR '';'', Star sp, Chr CHR '':'', WordB],
     ''Fork bomb''),
    (seqs [WordB, Alt (lit ''chown'') (lit ''chmod''), WordB, Star not_nl, WordB, lit ''-R'',
           WordB, Star not_nl, Chr CHR ''/'', Star sp, Eol],
     ''Recursive perm change at root''),
    (seqs [WordB, lit ''shred'', WordB, Star not_nl,
           Alt (seqs [lit ''/dev/sd'', Cls (in_range CHR ''a'' CHR ''z'')])
               (seqs [Chr CHR ''/'', Star sp, Eol])],
     ''Shred on device or root''),
    (Alt (seqs [WordB, lit ''shutdown'', WordB])
       (Alt (seqs [WordB, lit ''reboot'', WordB]) (seqs [WordB, lit ''halt'', WordB])),
     ''System power action''),
    (seqs [WordB, lit ''mount'', WordB, Star not_nl, WordB, lit ''--bind'', WordB,
           Star not_nl, lit ''/proc'', WordB],
     ''Risky bind mount proc''),
    (seqs [WordB, lit ''userdel'', WordB, Star not_nl, WordB, lit ''--remove'', WordB,
           plus sp, plus wd],
     ''User delete with remove''),
    (seqs [WordB, lit ''kill'', WordB, plus sp, lit ''-9'', plus sp, Chr CHR ''1'', WordB],
     ''SIGKILL PID 1''),
    (seqs [WordB, Alt (lit ''echo'') (lit ''printf''), WordB, Star not_nl, Star sp,
           Chr CHR ''>'', Star sp, lit ''/etc/'', plus wd],
     ''Write into /etc''),
    (seqs [WordB, Alt (lit ''curl'') (lit ''wget''), WordB, Star not_nl, Chr CHR ''|'',
           Star sp, Alt (lit ''sh'') (lit ''bash''), WordB],
     ''Pipe remote script to shell'')]"

text \<open>The pattern of the redirection check, \<^verbatim>\<open>>\s*/(etc|boot|bin|sbin|usr)/\<close>.\<close>

definition REDIRECT_PATTERN :: regex where
  "REDIRECT_PATTERN = seqs [Chr CHR ''>'', Star sp, Chr CHR ''/'',
     Alt (lit ''etc'') (Alt (lit ''boot'') (Alt (lit ''bin'') (Alt (lit ''sbin'') (lit ''usr'')))),
     Chr CHR ''/'']"

definition ALLOWED_PREFIXES :: "string list" where
  "ALLOWED_PREFIXES = [''ls'', ''cat'', ''head'', ''tail'', ''grep'', ''egrep'', ''fgrep'',
     ''find'', ''pwd'', ''whoami'', ''id'', ''date'', ''uptime'', ''df'', ''du'', ''free'',
     ''uname'', ''stat'', ''wc'', ''cut'', ''sort'', ''uniq'', ''echo'', ''printf'', ''sed'',
     ''awk'', ''ps'', ''top'', ''htop'', ''ss'']"

text \<open>
  Words and characters of which every signature, and the redirection pattern, needs at
  least one in the text: a command that contains none of them matches no pattern.
\<close>

definition TRIGGERS :: "string list" where
  "TRIGGERS = [''rm'', ''dd'', ''mkfs'', '':'', ''chown'', ''chmod'', ''shred'', ''shutdown'',
     ''reboot'', ''halt'', ''mount'', ''userdel'', ''kill'', ''>'', ''curl'', ''wget'']"

subsection \<open>\<open>shlex.split\<close>\<close>

text \<open>
  \<open>shlex.split(s)\<close> runs the POSIX-mode lexer with \<open>whitespace_split\<close> set and no
  comment characters, and collects every token. The lexer's states are \<open>' '\<close>
  (\<open>Blank\<close>), \<open>'a'\<close> (\<open>Word\<close>), inside a quote, and after a backslash (with the state to
  return to: \<open>None\<close> for \<open>'a'\<close>, the quote otherwise). The arguments are the state, the
  \<open>quoted\<close> flag, the token read so far and the rest of the input. Reaching the end of
  the input inside a quote or right after a backslash raises \<open>ValueError\<close>, for any token
  of the text, since all of them are read.
\<close>

datatype lex_state = Blank | Word | Quote char | Escape "char option"

definition shlex_whitespace :: "char \<Rightarrow> bool" where
  "shlex_whitespace c = (c = CHR 0x20 \<or> c = CHR 0x09 \<or> c = CHR 0x0D \<or> c = CHR 0x0A)"

definition shlex_quote :: "char \<Rightarrow> bool" where
  "shlex_quote c = (c = CHR 0x27 \<or> c = CHR 0x22)"

definition emit :: "string \<Rightarrow> error + string list \<Rightarrow> error + string list" where
  "emit tok r = (case r of Inl e \<Rightarrow> Inl e | Inr ts \<Rightarrow> Inr (tok # ts))"

fun shlex_tokens :: "lex_state \<Rightarrow> bool \<Rightarrow> string \<Rightarrow> string \<Rightarrow> error + string list" where
  "shlex_tokens Blank quoted tok [] = (if tok = [] \<and> \<not> quoted then Inr [] else Inr [tok])"
| "shlex_tokens Word quoted tok [] = (if tok = [] \<and> \<not> quoted then Inr [] else Inr [tok])"
| "shlex_tokens (Quote q) quoted tok [] = Inl (ValueError ''No closing quotation'')"
| "shlex_tokens (Escape e) quoted tok [] = Inl (ValueError ''No escaped character'')"
| "shlex_tokens Blank quoted tok (c # cs) =
     (if shlex_whitespace c then
        (if tok \<noteq> [] \<or> quoted then emit tok (shlex_tokens Blank False [] cs)
         else shlex_tokens Blank quoted tok cs)
      else if c = CHR 0x5C then shlex_tokens (Escape None) quoted tok cs
      else if shlex_quote c then shlex_tokens (Quote c) quoted tok cs
      else shlex_tokens Word quoted [c] cs)"
| "shlex_tokens Word quoted tok (c # cs) =
     (if shlex_whitespace c then
        (if tok \<noteq> [] \<or> quoted then emit tok (shlex_tokens Blank False [] cs)
         else shlex_tokens Blank quoted tok cs)
      else if shlex_quote c then shlex_tokens (Quote c) quoted tok cs
      else if c = CHR 0x5C then shlex_tokens (Escape None) quoted tok cs
      else shlex_tokens Word quoted (tok @ [c]) cs)"
| "shlex_tokens (Quote q) quoted tok (c # cs) =
     (if c = q then shlex_tokens Word True tok cs
      else if c = CHR 0x5C \<and> q = CHR 0x22 then shlex_tokens (Escape (Some q)) True tok cs
      else shlex_tokens (Quote q) True (tok @ [c]) cs)"
| "shlex_tokens (Escape None) quoted tok (c # cs) = shlex_tokens Word quoted (tok @ [c]) cs"
| "shlex_tokens (Escape (Some q)) quoted tok (c # cs) =
     shlex_tokens (Quote q) quoted
       ((if c \<noteq> CHR 0x5C \<and> c \<noteq> q then tok @ [CHR 0x5C] else tok) @ [c]) cs"

definition shlex_split :: "string \<Rightarrow> error + string list" where
  "shlex_split s = shlex_tokens Blank False [] s"

text \<open>\<open>shlex.split(stripped)[0] if stripped else ""\<close>.\<close>

definition first_token :: "string \<Rightarrow> error + string" where
  "first_token stripped =
     (if stripped = [] then Inr []
      else case shlex_split stripped of
             Inl e \<Rightarrow> Inl e
           | Inr [] \<Rightarrow> Inl (IndexError ''list index out of range'')
           | Inr (t # ts) \<Rightarrow> Inr t)"

subsection \<open>\<open>check_danger\<close>\<close>

record verdict =
  is_danger :: bool
  reasons :: "string list"

definition pattern_reasons :: "string \<Rightarrow> string list" where
  "pattern_reasons stripped =
     map snd (filter (\<lambda>(pattern, label). re_search pattern stripped) DANGEROUS_PATTERNS)"

definition check_danger :: "string \<Rightarrow> error + verdict" where
  "check_danger cmd =
     (let stripped = strip cmd;
          reasons1 = pattern_reasons stripped
      in case first_token stripped of
           Inl e \<Rightarrow> Inl e
         | Inr first \<Rightarrow>
             let reasons2 = reasons1 @
                   (if contains ''sudo'' stripped \<and> first \<notin> set ALLOWED_PREFIXES
                    then [''Uses sudo on non-allowlisted command''] else []);
                 reasons3 = reasons2 @
                   (if re_search REDIRECT_PATTERN stripped
                    then [''Redirection into system path''] else [])
             in Inr \<lparr>is_danger = 0 < length reasons3, reasons = reasons3\<rparr>)"

section \<open>The shared state record (state.py)\<close>

text \<open>
  \<open>State\<close> is a \<open>TypedDict\<close> with \<open>total=False\<close>: every key may be absent, so every
  field is an option. The candidate's command and explanation come from the decoded
  answer of the provider, and \<open>last_command\<close> may be set from the candidate's command, so
  these three hold decoded values; the other text fields are only ever set to strings.
  \<open>source\<close> and \<open>strict_json\<close> are keys the nodes read and write although the class does
  not declare them.
\<close>

record exec_result =
  exit_code :: int
  stdout :: string
  stderr :: string

record State =
  user_request :: "string option"
  last_command :: "json option"
  last_error :: "string option"
  direct_command :: "string option"
  candidate_command :: "json option"
  candidate_explanation :: "json option"
  candidate_mode :: "string option"
  danger :: "bool option"
  danger_reasons :: "string list option"
  approval :: "string option"
  user_feedback :: "string option"
  result :: "exec_result option"
  dry_run :: "bool option"
  quiet :: "bool option"
  interactive :: "bool option"
  fix_decision :: "string option"
  source :: "string option"
  strict_json :: "bool option"

definition empty_state :: State where
  "empty_state = \<lparr>user_request = None, last_command = None, last_error = None,
     direct_command = None, candidate_command = None, candidate_explanation = None,
     candidate_mode = None, danger = None, danger_reasons = None, approval = None,
     user_feedback = None, result = None, dry_run = None, quiet = None,
     interactive = None, fix_decision = None, source = None, strict_json = None\<rparr>"

section \<open>Routing (nodes.py, route)\<close>

definition route :: "State \<Rightarrow> error + string" where
  "route state =
     (if truthy (user_request state) then Inr ''from_english''
      else if truthy_value (last_command state) \<and> truthy (last_error state)
      then Inr ''from_error''
      else if truthy (direct_command state) then Inr ''from_direct''
      else Inl (ValueError ''Provide either --english or --fix with --cmd and --err''))"

text \<open>The three input kinds of a mediation request, as \<open>route\<close> tests them.\<close>

definition nl_populated :: "State \<Rightarrow> bool" where
  "nl_populated state = truthy (user_request state)"

definition err_populated :: "State \<Rightarrow> bool" where
  "err_populated state = (truthy_value (last_command state) \<and> truthy (last_error state))"

definition direct_populated :: "State \<Rightarrow> bool" where
  "direct_populated state = truthy (direct_command state)"

definition populated_kinds :: "State \<Rightarrow> nat" where
  "populated_kinds state =
     (if nl_populated state then 1 else 0) + (if err_populated state then 1 else 0) +
     (if direct_populated state then 1 else 0)"

section \<open>The translation client (nodes.py)\<close>

text \<open>
  The provider's client and the rest of the world are parameters, gathered in \<open>env\<close>.
  \<^item> \<open>get_llm\<close> is the exception that building the client raises (a missing package or
    key), \<open>None\<close> when the client is built.
  \<^item> \<open>llm\<close> gives, for a prompt, what \<open>llm.invoke\<close> does: \<open>Reply c\<close> returns a message
    with the text \<open>c\<close> within the bound of 30 seconds; \<open>Fails e\<close> raises \<open>e\<close> within the
    bound; \<open>Late\<close> completes, either way, only after the bound; \<open>Never\<close> does not
    complete at all.
  \<^item> \<open>futures_timeout_is_builtin\<close> says that \<open>concurrent.futures.TimeoutError\<close> is the
    built-in \<open>TimeoutError\<close>, as it is from Python 3.11 on.
  \<^item> \<open>json_loads\<close> is the JSON decoder, \<open>None\<close> when it raises; \<open>str_repr\<close> is \<open>repr\<close> on
    strings.
  \<^item> \<open>shell\<close> is \<open>subprocess.run(cmd, shell=True, capture_output=True, text=True)\<close>: the
    completed process, the exception raised, or \<open>None\<close> when the process never exits.
  \<^item> \<open>DRY_RUN\<close> is the environment variable, \<open>getcwd\<close> the working directory, and
    \<open>int_max_str_digits\<close> the interpreter's limit on the digits \<open>int\<close> converts (4300
    unless configured; 0 for no limit).

  A call that does not return has the value \<open>None\<close>; one that returns has the value
  \<open>Some r\<close>, where \<open>r\<close> is the exception raised (\<open>Inl\<close>) or the result (\<open>Inr\<close>).
\<close>

datatype llm_reply = Reply string | Fails error | Late | Never

record env =
  get_llm :: "error option"
  llm :: "string \<Rightarrow> llm_reply"
  futures_timeout_is_builtin :: bool
  json_loads :: "string \<Rightarrow> json option"
  str_repr :: "string \<Rightarrow> string"
  shell :: "json \<Rightarrow> (error + exec_result) option"
  DRY_RUN :: "string option"
  getcwd :: string
  int_max_str_digits :: nat

text \<open>
  \<open>_llm_invoke_with_timeout\<close>. The call runs in a worker of a pool that the \<open>with\<close>
  block owns, and leaving the block waits for the worker. So a call that is late raises
  \<open>TimeoutError\<close> once the worker is done, and a call that never completes keeps the
  block from being left. An exception of the worker is raised again by \<open>future.result\<close>;
  if it is a \<open>concurrent.futures.TimeoutError\<close> the handler replaces it.
\<close>

fun is_timeout :: "error \<Rightarrow> bool" where
  "is_timeout (TimeoutError m) = True"
| "is_timeout e = False"

definition llm_invoke_with_timeout :: "env \<Rightarrow> string \<Rightarrow> (error + string) option" where
  "llm_invoke_with_timeout ev prompt =
     (case llm ev prompt of
        Reply content \<Rightarrow> Some (Inr content)
      | Fails e \<Rightarrow>
          if futures_timeout_is_builtin ev \<and> is_timeout e
          then Some (Inl (TimeoutError ''LLM request timed out''))
          else Some (Inl e)
      | Late \<Rightarrow> Some (Inl (TimeoutError ''LLM request timed out''))
      | Never \<Rightarrow> None)"

subsection \<open>\<open>str.splitlines\<close>, \<open>str.join\<close>, \<open>str.index\<close> and slices\<close>

definition is_linebreak :: "char \<Rightarrow> bool" where
  "is_linebreak c = (of_char c \<in> {10, 11, 12, 13, 28, 29, 30, 133 :: nat})"

fun splitlines_from :: "string \<Rightarrow> string \<Rightarrow> string list" where
  "splitlines_from cur [] = (if cur = [] then [] else [cur])"
| "splitlines_from cur [c] = (if is_linebreak c then [cur] else [cur @ [c]])"
| "splitlines_from cur (c # d # cs) =
     (if c = CHR 0x0D \<and> d = CHR 0x0A then cur # splitlines_from [] cs
      else if is_linebreak c then cur # splitlines_from [] (d # cs)
      else splitlines_from (cur @ [c]) (d # cs))"

definition splitlines :: "string \<Rightarrow> string list" where
  "splitlines s = splitlines_from [] s"

fun join_nl :: "string list \<Rightarrow> string" where
  "join_nl [] = []"
| "join_nl [l] = l"
| "join_nl (l # m # ls) = l @ CHR 0x0A # join_nl (m # ls)"

fun index_of :: "char \<Rightarrow> string \<Rightarrow> nat option" where
  "index_of c [] = None"
| "index_of c (x # xs) =
     (if x = c then Some 0 else case index_of c xs of None \<Rightarrow> None | Some i \<Rightarrow> Some (Suc i))"

definition rindex_of :: "char \<Rightarrow> string \<Rightarrow> nat option" where
  "rindex_of c s =
     (case index_of c (rev s) of None \<Rightarrow> None | Some i \<Rightarrow> Some (length s - 1 - i))"

text \<open>\<open>s[a:b]\<close> for indices that are not negative.\<close>

definition slice :: "'a list \<Rightarrow> nat \<Rightarrow> nat \<Rightarrow> 'a list" where
  "slice xs a b = take (b - a) (drop a xs)"

subsection \<open>\<open>_parse_llm_json\<close>\<close>

text \<open>
  The function returns whatever the decoder returns, of any JSON type, and the
  dictionary of the plain-text fallback when both decoding attempts fail.
\<close>

definition FENCE :: string where
  "FENCE = [CHR 0x60, CHR 0x60, CHR 0x60]"

definition PLAIN_TEXT_NOTE :: string where
  "PLAIN_TEXT_NOTE = ''Model returned plain text; review carefully.''"

definition plain_text_fallback :: "string \<Rightarrow> json" where
  "plain_text_fallback text =
     JObj [(''command'', JStr text), (''explanation'', JStr PLAIN_TEXT_NOTE),
           (''mode'', JStr ''run'')]"

definition unfence :: "string \<Rightarrow> string" where
  "unfence text =
     (if startswith text FENCE then
        let body = join_nl (tl (splitlines text));
            body2 = (if endswith (rstrip body) FENCE
                     then take (length (rstrip body) - 3) (rstrip body) else body)
        in strip body2
      else text)"

definition parse_llm_json :: "(string \<Rightarrow> json option) \<Rightarrow> string \<Rightarrow> json" where
  "parse_llm_json loads content =
     (let text = unfence (strip content) in
      case loads text of
        Some d \<Rightarrow> d
      | None \<Rightarrow>
          (case index_of CHR ''{'' text of
             None \<Rightarrow> plain_text_fallback text
           | Some start \<Rightarrow>
               (case rindex_of CHR ''}'' text of
                  None \<Rightarrow> plain_text_fallback text
                | Some e \<Rightarrow>
                    (case loads (slice text start (e + 1)) of
                       Some d \<Rightarrow> d
                     | None \<Rightarrow> plain_text_fallback text))))"

subsection \<open>\<open>from_english\<close>, \<open>from_error\<close> and \<open>replan\<close>\<close>

definition ENGLISH_PROMPT_HEAD :: string where
  "ENGLISH_PROMPT_HEAD =
     ''You are a Linux shell expert. Convert the user'' @ [CHR 0x27] @
     ''s natural-language request into a single, safe (if possible), '' @
     ''POSIX-compatible command when possible.\<newline>If the '' @
     ''command is dangerous, return the command and explanation; '' @
     ''a separate danger check will assess it before running.\<newline>Return '' @
     ''ONLY JSON with keys: command, explanation, mode. NO prose, '' @
     ''NO code fences.\<newline>If no safe/runnable command is '' @
     ''appropriate, set mode to '' @ [CHR 0x27] @ ''explain'' @ [CHR 0x27] @
     '' and put your guidance in '' @ [CHR 0x27] @ ''explanation'' @ [CHR 0x27] @
     '' and leave '' @ [CHR 0x27] @ ''command'' @ [CHR 0x27] @
     '' empty.\<newline>Request: ''"

definition STRICT_SUFFIX :: string where
  "STRICT_SUFFIX =
     ''\<newline>Respond STRICTLY in JSON. No extra text. Schema: '' @
     ''{\"command\": string, \"explanation\": string, \"mode\": '' @
     ''\"run\"|\"explain\"}.''"

definition ERROR_PROMPT_HEAD :: string where
  "ERROR_PROMPT_HEAD =
     ''You are a Linux CLI fixer. Given a command that failed '' @
     ''and its error output, propose a corrected command.\<newline>Assume '' @
     ''a typical Debian/Ubuntu environment unless specified.\<newline>If '' @
     ''the intent is ambiguous, choose the most likely command.\<newline>Return '' @
     ''ONLY JSON: {command, explanation, mode}. NO prose, NO code '' @
     ''fences.\<newline>If the best action is to explain instead '' @
     ''of running anything (e.g., user typed a non-existent command '' @
     ''or must supply operands), set mode to '' @ [CHR 0x27] @ ''explain'' @ [CHR 0x27] @
     '' and leave '' @ [CHR 0x27] @ ''command'' @ [CHR 0x27] @
     '' empty.\<newline>\<newline>Intent (optional): ''"

definition REPLAN_PROMPT_HEAD :: string where
  "REPLAN_PROMPT_HEAD =
     ''Rewrite the following shell command to satisfy the user'' @ [CHR 0x27] @
     ''s feedback while minimizing risk.\<newline>Prefer read-only '' @
     ''or non-destructive forms. If write action is required, '' @
     ''add the smallest scope and backup/--dry-run flags where '' @
     ''available.\<newline>Return JSON: {command, explanation}.\<newline>\<newline>Original: ''"

text \<open>
  A node returns the keys it sets; the other fields of its result are \<open>None\<close>.
  \<open>candidate c e m\<close> is \<open>{"candidate_command": c, "candidate_explanation": e,
  "candidate_mode": m}\<close>.
\<close>

definition candidate :: "json \<Rightarrow> json \<Rightarrow> string \<Rightarrow> State" where
  "candidate c e m = empty_state\<lparr>candidate_command := Some c,
     candidate_explanation := Some e, candidate_mode := Some m\<rparr>"

text \<open>
  What one round of the loop does with the decoded answer \<open>data\<close>: it raises, or skips
  the attempt (\<open>Inr None\<close>, the \<open>continue\<close> under \<open>strict_json\<close>), or returns the
  candidate. \<open>data.get\<close> exists on a dictionary only; \<open>lower\<close> and \<open>strip\<close> on a string
  only.
\<close>

definition reply_candidate :: "bool \<Rightarrow> json \<Rightarrow> error + State option" where
  "reply_candidate strict data =
     (case data of
        JObj kvs \<Rightarrow>
          (case (if strict
                 then as_str ''lower'' (value_default (map_of kvs ''explanation'') (JStr []))
                 else Inr []) of
             Inl e \<Rightarrow> Inl e
           | Inr expl \<Rightarrow>
               if strict \<and> startswith (lower expl) ''model returned plain text'' then Inr None
               else
                 (case as_str ''strip'' (value_or (map_of kvs ''mode'') (JStr ''run'')) of
                    Inl e \<Rightarrow> Inl e
                  | Inr m \<Rightarrow>
                      Inr (Some (candidate
                        (value_default (map_of kvs ''command'') (JStr []))
                        (value_default (map_of kvs ''explanation'') (JStr []))
                        (lower (strip m))))))
      | _ \<Rightarrow> Inl (no_attribute data ''get''))"

text \<open>
  The loop \<open>for p in prompts\<close>, which \<open>from_english\<close> and \<open>from_error\<close> share word for
  word; \<open>last_exc\<close> is the exception of the latest failed attempt. Only the call of the
  provider is inside the \<open>try\<close>.
\<close>

fun translate_attempts ::
  "env \<Rightarrow> bool \<Rightarrow> string list \<Rightarrow> error option \<Rightarrow> (error + State) option" where
  "translate_attempts ev strict [] last_exc =
     (case last_exc of
        Some e \<Rightarrow>
          Some (Inr (candidate (JStr []) (JStr (''LLM error: '' @ err_str e)) ''explain''))
      | None \<Rightarrow> Some (Inr (candidate (JStr []) (JStr []) ''explain'')))"
| "translate_attempts ev strict (p # ps) last_exc =
     (case llm_invoke_with_timeout ev p of
        None \<Rightarrow> None
      | Some (Inl e) \<Rightarrow> translate_attempts ev strict ps (Some e)
      | Some (Inr content) \<Rightarrow>
          (case reply_candidate strict (parse_llm_json (json_loads ev) content) of
             Inl e \<Rightarrow> Some (Inl e)
           | Inr None \<Rightarrow> translate_attempts ev strict ps last_exc
           | Inr (Some out) \<Rightarrow> Some (Inr out)))"

text \<open>
  The list \<open>prompts\<close> of each step: the base prompt, and with \<open>strict_json\<close> the same
  prompt again with the stricter ending.
\<close>

definition english_prompts :: "bool \<Rightarrow> string \<Rightarrow> string list" where
  "english_prompts strict req =
     (let base_prompt = ENGLISH_PROMPT_HEAD @ req in
      base_prompt # (if strict then [base_prompt @ STRICT_SUFFIX] else []))"

definition error_prompts :: "bool \<Rightarrow> string \<Rightarrow> string \<Rightarrow> string \<Rightarrow> string list" where
  "error_prompts strict intent lc le =
     (let base_prompt = ERROR_PROMPT_HEAD @ intent @ ''\<newline>Command: '' @ lc @
            ''\<newline>Error: '' @ le @ ''\<newline>'' in
      base_prompt # (if strict then [base_prompt @ STRICT_SUFFIX] else []))"

text \<open>
  Each step first asks for the client (\<open>_ensure_llm\<close>), outside any \<open>try\<close>, then reads
  its keys.
\<close>

definition from_english :: "env \<Rightarrow> State \<Rightarrow> (error + State) option" where
  "from_english ev state =
     (case get_llm ev of
        Some e \<Rightarrow> Some (Inl e)
      | None \<Rightarrow>
          let strict = (strict_json state = Some True) in
          case user_request state of
            None \<Rightarrow> Some (Inl (KeyError ''user_request''))
          | Some req \<Rightarrow> translate_attempts ev strict (english_prompts strict req) None)"

definition from_error :: "env \<Rightarrow> State \<Rightarrow> (error + State) option" where
  "from_error ev state =
     (case get_llm ev of
        Some e \<Rightarrow> Some (Inl e)
      | None \<Rightarrow>
          let intent = get_default (user_request state) [];
              strict = (strict_json state = Some True) in
          case last_command state of
            None \<Rightarrow> Some (Inl (KeyError ''last_command''))
          | Some lc \<Rightarrow>
              (case last_error state of
                 None \<Rightarrow> Some (Inl (KeyError ''last_error''))
               | Some le \<Rightarrow>
                   translate_attempts ev strict
                     (error_prompts strict intent (py_str (str_repr ev) lc) le) None))"

definition replan :: "env \<Rightarrow> State \<Rightarrow> (error + State) option" where
  "replan ev state =
     (case get_llm ev of
        Some e \<Rightarrow> Some (Inl e)
      | None \<Rightarrow>
          let feedback = get_default (user_feedback state) ''Safer alternative'';
              prompt = REPLAN_PROMPT_HEAD @
                py_str (str_repr ev) (value_default (candidate_command state) (JStr [])) @
                ''\<newline>Feedback: '' @ feedback @ ''\<newline>''
          in case llm_invoke_with_timeout ev prompt of
               None \<Rightarrow> None
             | Some (Inl e) \<Rightarrow>
                 Some (Inr (empty_state\<lparr>candidate_command := Some (JStr []),
                   candidate_explanation := Some (JStr (''LLM error: '' @ err_str e))\<rparr>))
             | Some (Inr content) \<Rightarrow>
                 (case parse_llm_json (json_loads ev) content of
                    JObj kvs \<Rightarrow>
                      Some (Inr (empty_state\<lparr>
                        candidate_command :=
                          Some (value_default (map_of kvs ''command'') (JStr [])),
                        candidate_explanation :=
                          Some (value_default (map_of kvs ''explanation'') (JStr []))\<rparr>))
                  | v \<Rightarrow> Some (Inl (no_attribute v ''get''))))"

subsection \<open>\<open>from_direct\<close> and \<open>danger_check\<close>\<close>

definition from_direct :: "State \<Rightarrow> State" where
  "from_direct state =
     (let cmd = strip (get_default (direct_command state) []) in
      if cmd = [] then
        empty_state\<lparr>candidate_command := Some (JStr []), candidate_explanation := Some (JStr [])\<rparr>
      else empty_state\<lparr>candidate_command := Some (JStr cmd),
             candidate_explanation := Some (JStr ''Direct command''),
             candidate_mode := Some ''run'', source := Some ''direct''\<rparr>)"

definition intent_keywords :: "string list" where
  "intent_keywords = [''delete the root'', ''rm -rf /'', ''wipe disk'', ''format /'',
     ''destroy all'', ''erase all'', ''drop database'', ''remove all files'', ''shred'',
     ''mkfs'', ''reboot'', ''shutdown'']"

text \<open>
  \<open>check_danger(v)\<close> for the value of \<open>candidate_command\<close>: the first thing the classifier
  does with its argument is \<open>cmd.strip()\<close>.
\<close>

definition check_danger_value :: "json \<Rightarrow> error + verdict" where
  "check_danger_value v =
     (case v of JStr s \<Rightarrow> check_danger s | _ \<Rightarrow> Inl (no_attribute v ''strip''))"

definition danger_check :: "State \<Rightarrow> error + State" where
  "danger_check state =
     (case (case candidate_command state of
              Some v \<Rightarrow>
                if json_truthy v then check_danger_value v
                else Inr \<lparr>is_danger = True, reasons = [''No command generated'']\<rparr>
            | None \<Rightarrow> Inr \<lparr>is_danger = True, reasons = [''No command generated'']\<rparr>) of
        Inl e \<Rightarrow> Inl e
      | Inr out \<Rightarrow>
          (case as_str ''lower'' (value_or (candidate_explanation state) (JStr [])) of
             Inl e \<Rightarrow> Inl e
           | Inr expl_text \<Rightarrow>
               let req = lower (get_or (user_request state) []);
                   expl = lower expl_text;
                   hit1 = list_ex (\<lambda>k. contains k req) intent_keywords;
                   hit2 = (contains ''dangerous'' expl \<or> contains ''warning'' expl \<or>
                           contains ''destructive'' expl)
               in Inr (empty_state\<lparr>
                    danger := Some (is_danger out \<or> hit1 \<or> hit2),
                    danger_reasons := Some (reasons out @
                      (if hit1 then [''User intent appears destructive''] else []) @
                      (if hit2 then [''Explanation indicates danger''] else []))\<rparr>)))"

subsection \<open>\<open>approval_gate\<close>, \<open>run_command\<close> and \<open>error_decision\<close>\<close>

text \<open>
  \<open>input()\<close> reads the next line the user types; the lines still to come are an
  argument, and a node that reads returns the lines it has left. With no line left,
  \<open>input()\<close> raises \<open>EOFError\<close>. Printing is not modelled, but for the \<open>KeyError\<close> of
  \<open>state['candidate_command']\<close> in the two places that print the command.
\<close>

definition PLACEHOLDER_NOTE :: string where
  "PLACEHOLDER_NOTE =
     ''The proposed command includes placeholders (e.g., <...>). '' @
     ''Replace them with real values and run again.''"

definition approval_gate :: "State \<Rightarrow> string list \<Rightarrow> error + State \<times> string list" where
  "approval_gate state ins =
     (if source state = Some ''direct'' then Inr (empty_state\<lparr>approval := Some ''auto''\<rparr>, ins)
      else if candidate_mode state = Some ''explain''
      then Inr (empty_state\<lparr>approval := Some ''cancelled''\<rparr>, ins)
      else
        (case as_str ''strip'' (value_or (candidate_command state) (JStr [])) of
           Inl e \<Rightarrow> Inl e
         | Inr raw \<Rightarrow>
             let cmd_text = strip raw in
             if cmd_text \<noteq> [] \<and> contains ''<'' cmd_text \<and> contains ''>'' cmd_text
             then Inr (empty_state\<lparr>approval := Some ''cancelled'',
                         candidate_mode := Some ''explain'',
                         candidate_explanation :=
                           Some (value_or (candidate_explanation state)
                                   (JStr PLACEHOLDER_NOTE))\<rparr>, ins)
             else if candidate_command state = None \<and>
                     (danger state = Some True \<or>
                      truthy_value (candidate_explanation state) \<and> quiet state \<noteq> Some True)
             then Inl (KeyError ''candidate_command'')
             else if danger state \<noteq> Some True
             then Inr (empty_state\<lparr>approval := Some ''auto''\<rparr>, ins)
             else
               (case ins of
                  [] \<Rightarrow> Inl EOFError
                | a # rest \<Rightarrow>
                    let ans = lower (strip a) in
                    if ans = ''y'' \<or> ans = ''yes''
                    then Inr (empty_state\<lparr>approval := Some ''approved''\<rparr>, rest)
                    else if ans = ''e'' then
                      (case rest of
                         [] \<Rightarrow> Inl EOFError
                       | fb # rest2 \<Rightarrow>
                           Inr (empty_state\<lparr>approval := Some ''rejected'',
                                  user_feedback := Some (strip fb)\<rparr>, rest2))
                    else Inr (empty_state\<lparr>approval := Some ''cancelled''\<rparr>, rest))))"

definition run_command :: "env \<Rightarrow> State \<Rightarrow> (error + State) option" where
  "run_command ev state =
     (let cmd = value_default (candidate_command state) (JStr []) in
      if \<not> json_truthy cmd then
        Some (Inr (empty_state\<lparr>result :=
          Some \<lparr>exit_code = 1, stdout = [], stderr = ''No command to run.''\<rparr>\<rparr>))
      else
        let dry = (case dry_run state of
                     Some b \<Rightarrow> b
                   | None \<Rightarrow> get_default (DRY_RUN ev) ''1'' = ''1'') in
        if dry then
          Some (Inr (empty_state\<lparr>result :=
            Some \<lparr>exit_code = 0, stdout = ''(dry-run) not executed'', stderr = []\<rparr>\<rparr>))
        else
          (case shell ev cmd of
             None \<Rightarrow> None
           | Some (Inl e) \<Rightarrow> Some (Inl e)
           | Some (Inr res) \<Rightarrow>
               if exit_code res \<noteq> 0 then
                 Some (Inr (empty_state\<lparr>result := Some res, last_command := Some cmd,
                   last_error :=
                     Some (if stderr res = [] then ''(no stderr captured)'' else stderr res)\<rparr>))
               else Some (Inr (empty_state\<lparr>result := Some res\<rparr>))))"

text \<open>The \<open>while True\<close> of \<open>error_decision\<close>: it asks again until it reads a yes or a no.\<close>

fun ask_fix :: "string list \<Rightarrow> error + State \<times> string list" where
  "ask_fix [] = Inl EOFError"
| "ask_fix (a # rest) =
     (let ans = lower (strip a) in
      if ans = ''y'' \<or> ans = ''yes'' then Inr (empty_state\<lparr>fix_decision := Some ''llm''\<rparr>, rest)
      else if ans = ''n'' \<or> ans = ''no'' \<or> ans = [] then
        Inr (empty_state\<lparr>fix_decision := Some ''stop''\<rparr>, rest)
      else ask_fix rest)"

definition error_decision :: "State \<Rightarrow> string list \<Rightarrow> error + State \<times> string list" where
  "error_decision state ins =
     (if interactive state \<noteq> Some True then Inr (empty_state\<lparr>fix_decision := Some ''stop''\<rparr>, ins)
      else ask_fix ins)"

subsection \<open>Faults of the provider, as the claims speak of them\<close>

text \<open>
  \<open>fault_of ev r\<close> is the exception \<open>_llm_invoke_with_timeout\<close> raises on the outcome
  \<open>r\<close>, if any. \<open>unparseable loads content\<close> says that both decoding attempts of
  \<open>_parse_llm_json\<close> fail on \<open>content\<close>: the whole text, and the text from the first
  \<open>{\<close> to the last \<open>}\<close> when both exist.
\<close>

fun fault_of :: "env \<Rightarrow> llm_reply \<Rightarrow> error option" where
  "fault_of ev (Reply c) = None"
| "fault_of ev (Fails e) =
     Some (if futures_timeout_is_builtin ev \<and> is_timeout e
           then TimeoutError ''LLM request timed out'' else e)"
| "fault_of ev Late = Some (TimeoutError ''LLM request timed out'')"
| "fault_of ev Never = None"

definition unparseable :: "(string \<Rightarrow> json option) \<Rightarrow> string \<Rightarrow> bool" where
  "unparseable loads content =
     (let text = unfence (strip content) in
      loads text = None \<and>
      (case index_of CHR ''{'' text of
         None \<Rightarrow> True
       | Some start \<Rightarrow>
           (case rindex_of CHR ''}'' text of
              None \<Rightarrow> True
            | Some e \<Rightarrow> loads (slice text start (e + 1)) = None)))"

section \<open>The workflow graph (graph.py)\<close>

text \<open>
  The graph library is not part of the repository. Its driver is modelled as follows: a
  node's result is merged into the state key by key (a key the node sets replaces the old
  value), then the edge out of the node, fixed or conditional, gives the next node; \<open>None\<close>
  is \<open>END\<close>. The state of the graph has the keys that the class \<open>State\<close> declares, and
  no others: \<open>source\<close> and \<open>strict_json\<close> are dropped, from the input and from what a
  node returns. The driver returns the nodes it has run, in order, and how the run ended:
  with a final state, with an exception, or never, because a node does not return. The
  number of steps is bounded by a fuel argument.
\<close>

definition orelse :: "'a option \<Rightarrow> 'a option \<Rightarrow> 'a option" where
  "orelse new old = (case new of None \<Rightarrow> old | Some v \<Rightarrow> Some v)"

definition merge :: "State \<Rightarrow> State \<Rightarrow> State" where
  "merge old new = \<lparr>
     user_request = orelse (user_request new) (user_request old),
     last_command = orelse (last_command new) (last_command old),
     last_error = orelse (last_error new) (last_error old),
     direct_command = orelse (direct_command new) (direct_command old),
     candidate_command = orelse (candidate_command new) (candidate_command old),
     candidate_explanation = orelse (candidate_explanation new) (candidate_explanation old),
     candidate_mode = orelse (candidate_mode new) (candidate_mode old),
     danger = orelse (danger new) (danger old),
     danger_reasons = orelse (danger_reasons new) (danger_reasons old),
     approval = orelse (approval new) (approval old),
     user_feedback = orelse (user_feedback new) (user_feedback old),
     result = orelse (result new) (result old),
     dry_run = orelse (dry_run new) (dry_run old),
     quiet = orelse (quiet new) (quiet old),
     interactive = orelse (interactive new) (interactive old),
     fix_decision = orelse (fix_decision new) (fix_decision old),
     source = None,
     strict_json = None\<rparr>"

datatype node =
    Router | From_english | From_error | From_direct | Danger_check | Approval_gate
  | Replan | Run | Error_decision

text \<open>What a node does: its partial result and the input lines it leaves.\<close>

definition no_input ::
  "string list \<Rightarrow> (error + State) option \<Rightarrow> (error + State \<times> string list) option" where
  "no_input ins r =
     (case r of
        None \<Rightarrow> None
      | Some (Inl e) \<Rightarrow> Some (Inl e)
      | Some (Inr out) \<Rightarrow> Some (Inr (out, ins)))"

fun exec_node ::
  "env \<Rightarrow> node \<Rightarrow> State \<Rightarrow> string list \<Rightarrow> (error + State \<times> string list) option" where
  "exec_node ev Router state ins = Some (Inr (state, ins))"
| "exec_node ev From_english state ins = no_input ins (from_english ev state)"
| "exec_node ev From_error state ins = no_input ins (from_error ev state)"
| "exec_node ev From_direct state ins = Some (Inr (from_direct state, ins))"
| "exec_node ev Danger_check state ins = no_input ins (Some (danger_check state))"
| "exec_node ev Approval_gate state ins = Some (approval_gate state ins)"
| "exec_node ev Replan state ins = no_input ins (replan ev state)"
| "exec_node ev Run state ins = no_input ins (run_command ev state)"
| "exec_node ev Error_decision state ins = Some (error_decision state ins)"

definition post_approval :: "State \<Rightarrow> string" where
  "post_approval state =
     (if approval state = Some ''auto'' \<or> approval state = Some ''approved'' then ''run''
      else if approval state = Some ''cancelled'' then ''end''
      else ''replan'')"

definition post_run :: "State \<Rightarrow> string" where
  "post_run state =
     (case result state of
        None \<Rightarrow> ''ok''
      | Some res \<Rightarrow> if exit_code res \<noteq> 0 then ''decide'' else ''ok'')"

definition post_decision :: "State \<Rightarrow> string" where
  "post_decision state = (if fix_decision state = Some ''llm'' then ''fix'' else ''end'')"

text \<open>
  The edges of \<open>build_graph\<close>. A conditional edge maps the label its function returns to
  a node; a label outside the mapping has no target, which the model reports as
  \<open>KeyError\<close>.
\<close>

definition next_node :: "node \<Rightarrow> State \<Rightarrow> error + node option" where
  "next_node n state =
     (case n of
        Router \<Rightarrow>
          (case route state of
             Inl e \<Rightarrow> Inl e
           | Inr label \<Rightarrow>
               if label = ''from_english'' then Inr (Some From_english)
               else if label = ''from_error'' then Inr (Some From_error)
               else if label = ''from_direct'' then Inr (Some From_direct)
               else Inl (KeyError label))
      | From_english \<Rightarrow> Inr (Some Danger_check)
      | From_error \<Rightarrow> Inr (Some Danger_check)
      | From_direct \<Rightarrow> Inr (Some Run)
      | Danger_check \<Rightarrow> Inr (Some Approval_gate)
      | Approval_gate \<Rightarrow>
          (let label = post_approval state in
           if label = ''run'' then Inr (Some Run)
           else if label = ''replan'' then Inr (Some Replan)
           else if label = ''end'' then Inr None
           else Inl (KeyError label))
      | Replan \<Rightarrow> Inr (Some Danger_check)
      | Run \<Rightarrow>
          (let label = post_run state in
           if label = ''ok'' then Inr None
           else if label = ''decide'' then Inr (Some Error_decision)
           else Inl (KeyError label))
      | Error_decision \<Rightarrow>
          (let label = post_decision state in
           if label = ''fix'' then Inr (Some From_error)
           else if label = ''end'' then Inr None
           else Inl (KeyError label)))"

datatype outcome = Finished State | Raised error | Blocked | Out_of_fuel

fun run_graph :: "env \<Rightarrow> nat \<Rightarrow> node \<Rightarrow> State \<Rightarrow> string list \<Rightarrow> node list \<times> outcome" where
  "run_graph ev 0 n state ins = ([], Out_of_fuel)"
| "run_graph ev (Suc k) n state ins =
     (case exec_node ev n state ins of
        None \<Rightarrow> ([n], Blocked)
      | Some (Inl e) \<Rightarrow> ([n], Raised e)
      | Some (Inr (out, ins2)) \<Rightarrow>
          let state2 = merge state out in
          (case next_node n state2 of
             Inl e \<Rightarrow> ([n], Raised e)
           | Inr None \<Rightarrow> ([n], Finished state2)
           | Inr (Some n2) \<Rightarrow>
               (case run_graph ev k n2 state2 ins2 of (tr, res) \<Rightarrow> (n # tr, res))))"

text \<open>Which nodes call the translation client, classify, or may prompt the user.\<close>

fun invokes_translation :: "node \<Rightarrow> bool" where
  "invokes_translation From_english = True"
| "invokes_translation From_error = True"
| "invokes_translation Replan = True"
| "invokes_translation n = False"

fun checks_danger :: "node \<Rightarrow> bool" where
  "checks_danger Danger_check = True"
| "checks_danger n = False"

fun prompts_user :: "node \<Rightarrow> bool" where
  "prompts_user Approval_gate = True"
| "prompts_user Error_decision = True"
| "prompts_user n = False"

section \<open>The daemon's handlers (daemon.py)\<close>

text \<open>
  A request is one decoded JSON object; the keys the handlers read are fields, absent
  when \<open>None\<close>. A response is the dictionary the handler returns, one constructor for each
  value of \<open>action\<close>; \<open>Error_response\<close> is \<open>{"error": ...}\<close>. The explanation in a response
  is the candidate's, a decoded value.
\<close>

record payload =
  p_event :: "string option"
  p_cmd :: "string option"
  p_cwd :: "string option"
  p_exit_code :: "int option"
  p_stderr_tail :: "string option"

datatype response =
    Message (message: json)
  | Replace (command: string) (explanation: json) (require_confirmation: bool)
      (reasons_given: "string list") (cwd: string)
  | Proceed (command: string) (require_confirmation: bool)
      (reasons_given: "string list") (cwd: string)
  | Ok
  | No_fix (explanation: json)
  | Suggest_fix (suggested_command: string) (explanation: json) (danger_flag: bool)
      (reasons_given: "string list")
  | Error_response string

definition action :: "response \<Rightarrow> string" where
  "action r =
     (case r of
        Message m \<Rightarrow> ''message''
      | Replace c e d rs w \<Rightarrow> ''replace''
      | Proceed c d rs w \<Rightarrow> ''proceed''
      | Ok \<Rightarrow> ''ok''
      | No_fix e \<Rightarrow> ''no_fix''
      | Suggest_fix c e d rs \<Rightarrow> ''suggest_fix''
      | Error_response m \<Rightarrow> [])"

definition get_list :: "string list option \<Rightarrow> string list" where
  "get_list v = (case v of None \<Rightarrow> [] | Some rs \<Rightarrow> rs)"

definition handle_preexec :: "env \<Rightarrow> payload \<Rightarrow> (error + response) option" where
  "handle_preexec ev pl =
     (let cmd = strip (get_or (p_cmd pl) []);
          cwd = get_or (p_cwd pl) (getcwd ev) in
      if startswith cmd ''/e '' then
        (let request = strip (drop 3 cmd) in
         case from_english ev (empty_state\<lparr>user_request := Some request\<rparr>) of
           None \<Rightarrow> None
         | Some (Inl e) \<Rightarrow> Some (Inl e)
         | Some (Inr out) \<Rightarrow>
             (case as_str ''strip'' (value_or (candidate_command out) (JStr [])) of
                Inl e \<Rightarrow> Some (Inl e)
              | Inr raw \<Rightarrow>
                  let cand = strip raw;
                      expl = value_or (candidate_explanation out) (JStr []) in
                  if cand = [] then
                    Some (Inr (Message (if json_truthy expl then expl
                                        else JStr ''No runnable command produced.'')))
                  else
                    (case danger_check (empty_state\<lparr>candidate_command := Some (JStr cand)\<rparr>) of
                       Inl e \<Rightarrow> Some (Inl e)
                     | Inr d \<Rightarrow>
                         Some (Inr (Replace cand expl (danger d = Some True)
                                      (get_list (danger_reasons d)) cwd)))))
      else
        (case danger_check (empty_state\<lparr>candidate_command := Some (JStr cmd)\<rparr>) of
           Inl e \<Rightarrow> Some (Inl e)
         | Inr d \<Rightarrow>
             Some (Inr (Proceed cmd (danger d = Some True) (get_list (danger_reasons d)) cwd))))"

definition handle_postexec :: "env \<Rightarrow> payload \<Rightarrow> (error + response) option" where
  "handle_postexec ev pl =
     (let cmd = get_or (p_cmd pl) [];
          code = (case p_exit_code pl of None \<Rightarrow> 0 | Some c \<Rightarrow> c);
          stderr_tail = get_or (p_stderr_tail pl) [] in
      if code = 0 then Some (Inr Ok)
      else
        (case from_error ev (empty_state\<lparr>last_command := Some (JStr cmd),
                 last_error := Some stderr_tail\<rparr>) of
           None \<Rightarrow> None
         | Some (Inl e) \<Rightarrow> Some (Inl e)
         | Some (Inr out) \<Rightarrow>
             (case as_str ''strip'' (value_or (candidate_command out) (JStr [])) of
                Inl e \<Rightarrow> Some (Inl e)
              | Inr raw \<Rightarrow>
                  let suggestion = strip raw;
                      expl = value_or (candidate_explanation out) (JStr []) in
                  if suggestion = [] then Some (Inr (No_fix expl))
                  else
                    (case danger_check
                            (empty_state\<lparr>candidate_command := Some (JStr suggestion)\<rparr>) of
                       Inl e \<Rightarrow> Some (Inl e)
                     | Inr d \<Rightarrow>
                         Some (Inr (Suggest_fix suggestion expl (danger d = Some True)
                                      (get_list (danger_reasons d))))))))"

definition handle_event :: "env \<Rightarrow> payload \<Rightarrow> (error + response) option" where
  "handle_event ev pl =
     (if p_event pl = Some ''preexec'' then handle_preexec ev pl
      else if p_event pl = Some ''postexec'' then handle_postexec ev pl
      else Some (Inr (Error_response (''Unknown event: '' @
                  (case p_event pl of None \<Rightarrow> ''None'' | Some e \<Rightarrow> e)))))"

text \<open>
  What \<open>_serve_client\<close> sends back for a decoded request: the handler's response, or
  \<open>{"error": str(e)}\<close> when the handler raised; nothing while the handler does not
  return.
\<close>

definition serve_request :: "env \<Rightarrow> payload \<Rightarrow> response option" where
  "serve_request ev pl =
     (case handle_event ev pl of
        None \<Rightarrow> None
      | Some (Inl e) \<Rightarrow> Some (Error_response (err_str e))
      | Some (Inr r) \<Rightarrow> Some r)"

section \<open>The terminal's output context (terminal.py)\<close>

text \<open>
  The fields of \<open>AITerminal\<close> that the output tracker and the repair loop read or write.
  The descriptors of the pseudo-terminal and the line being typed are left out: nothing
  below reads them, and writes to the terminal are not modelled. What the user types at
  a prompt is a parameter \<open>kb\<close>: \<open>kb k\<close> is the \<open>k\<close>-th line entered, \<open>None\<close> when the
  prompt was interrupted with Ctrl-C; the field \<open>reads\<close> counts the lines read so far
  (it belongs to the model, not to the class). A method that calls the provider returns
  \<open>None\<close> when that call never completes.
\<close>

record terminal =
  last_output_lines :: "string list"
  max_context_lines :: int
  last_failed_command :: "string option"
  last_error_text :: "string option"
  last_repair_suggestion :: "string option"
  pending_cmd :: "string option"
  pending_output_start :: nat
  repair_in_progress :: bool
  last_repaired_for_cmd :: "string option"
  repair_attempts :: "string \<rightharpoonup> nat"
  term_dry_run :: bool
  term_quiet :: bool
  auto_repair :: bool
  interactive_repair :: bool
  reads :: nat

text \<open>\<open>AITerminal.__init__\<close>.\<close>

definition init_terminal :: "bool \<Rightarrow> bool \<Rightarrow> terminal" where
  "init_terminal dry q = \<lparr>last_output_lines = [], max_context_lines = 100,
     last_failed_command = None, last_error_text = None, last_repair_suggestion = None,
     pending_cmd = None, pending_output_start = 0, repair_in_progress = False,
     last_repaired_for_cmd = None, repair_attempts = Map.empty, term_dry_run = dry,
     term_quiet = q, auto_repair = False, interactive_repair = True, reads = 0\<rparr>"

subsection \<open>Helpers of the repair loop\<close>

text \<open>
  \<open>_sanitize_llm_command_text\<close>: \<open>None\<close> for a value that is not a string. The search
  for \<^verbatim>\<open>"command"\s*:\s*"(.*?)"\<close> with DOTALL finds the leftmost \<^verbatim>\<open>"command"\<close> that is
  followed by a colon and an opening quote with a closing quote somewhere after it; the
  group is the text up to the first closing quote.
\<close>

definition command_value_at :: "string \<Rightarrow> string option" where
  "command_value_at s =
     (case dropWhile is_space s of
        [] \<Rightarrow> None
      | c # r \<Rightarrow>
          if c \<noteq> CHR '':'' then None
          else (case dropWhile is_space r of
                  [] \<Rightarrow> None
                | d # v \<Rightarrow>
                    if d = CHR 0x22 \<and> CHR 0x22 \<in> set v
                    then Some (takeWhile (\<lambda>x. x \<noteq> CHR 0x22) v) else None))"

fun find_command_value :: "string \<Rightarrow> string option" where
  "find_command_value [] = None"
| "find_command_value (c # cs) =
     (if startswith (c # cs) ''\"command\"'' then
        (case command_value_at (drop 9 (c # cs)) of
           Some v \<Rightarrow> Some v
         | None \<Rightarrow> find_command_value cs)
      else find_command_value cs)"

definition sanitize_llm_command_text :: "json \<Rightarrow> string option" where
  "sanitize_llm_command_text v =
     (case v of
        JStr text \<Rightarrow>
          (let cand = strip text in
           if contains ''\"command\"'' cand \<or> startswith cand ''{'' then
             (case find_command_value cand of
                Some g \<Rightarrow>
                  let extracted =
                        strip (map (\<lambda>x. if x = CHR 0x0D \<or> x = CHR 0x0A then CHR 0x20 else x)
                                 (strip g))
                  in if extracted \<noteq> [] then Some extracted else None
              | None \<Rightarrow> None)
           else if CHR 0x0A \<in> set cand \<or> CHR 0x0D \<in> set cand then None
           else if cand \<noteq> [] then Some cand else None)
      | _ \<Rightarrow> None)"

text \<open>
  \<open>repair_command_if_needed\<close>: the suggestion, if any. Every exception of the step is
  caught and gives no suggestion.
\<close>

definition repair_command_if_needed :: "env \<Rightarrow> string \<Rightarrow> string \<Rightarrow> string option option" where
  "repair_command_if_needed ev prev_cmd last_output_chunk =
     (case from_error ev (empty_state\<lparr>last_command := Some (JStr prev_cmd),
               last_error := Some last_output_chunk, dry_run := Some False,
               quiet := Some True, strict_json := Some True\<rparr>) of
        None \<Rightarrow> None
      | Some (Inl e) \<Rightarrow> Some None
      | Some (Inr res) \<Rightarrow>
          let raw_cmd = value_default (candidate_command res) (JStr []);
              mode = lower (get_or (candidate_mode res) ''run'')
          in Some (if json_truthy raw_cmd \<and> mode \<noteq> ''explain''
                   then sanitize_llm_command_text raw_cmd else None))"

text \<open>
  The terminal's own \<open>approval_gate(cmd, context)\<close>: a dangerous command needs a typed
  \<open>y\<close> or \<open>yes\<close>; any exception, the classifier's included, allows the command.
\<close>

definition term_approval_gate :: "string \<Rightarrow> string option \<Rightarrow> bool" where
  "term_approval_gate cmd typed =
     (case check_danger cmd of
        Inl e \<Rightarrow> True
      | Inr v \<Rightarrow>
          if is_danger v then
            (case typed of None \<Rightarrow> False | Some r \<Rightarrow> lower r = ''y'' \<or> lower r = ''yes'')
          else True)"

definition read_line_raw :: "(nat \<Rightarrow> string option) \<Rightarrow> terminal \<Rightarrow> string \<times> terminal" where
  "read_line_raw kb t =
     ((case kb (reads t) of None \<Rightarrow> [] | Some l \<Rightarrow> strip l), t\<lparr>reads := Suc (reads t)\<rparr>)"

definition prompt_fix_choice :: "(nat \<Rightarrow> string option) \<Rightarrow> terminal \<Rightarrow> string \<times> terminal" where
  "prompt_fix_choice kb t =
     (case read_line_raw kb t of
        (l, t2) \<Rightarrow>
          let ans = lower l in
          (if startswith ans ''r'' then ''run''
           else if startswith ans ''e'' then ''edit''
           else if startswith ans ''p'' then ''replan''
           else ''cancel'', t2))"

text \<open>
  The end of both repair paths: the gate, and for an allowed command the marks of a new
  tracked command. A key is read only when the gate prompts, that is, when the
  classifier returns a dangerous verdict.
\<close>

definition gate_and_dispatch ::
  "(nat \<Rightarrow> string option) \<Rightarrow> terminal \<Rightarrow> string \<Rightarrow> terminal" where
  "gate_and_dispatch kb t cmd =
     (let prompted = (case check_danger cmd of Inl e \<Rightarrow> False | Inr v \<Rightarrow> is_danger v);
          t2 = (if prompted then t\<lparr>reads := Suc (reads t)\<rparr> else t)
      in if term_approval_gate cmd (kb (reads t))
         then t2\<lparr>pending_cmd := Some cmd, pending_output_start := length (last_output_lines t2)\<rparr>
         else t2)"

text \<open>
  \<open>_handle_replan\<close>: every exception is caught, also the one of \<open>strip\<close> on a command
  that is not a string.
\<close>

definition handle_replan ::
  "env \<Rightarrow> (nat \<Rightarrow> string option) \<Rightarrow> terminal \<Rightarrow> string \<Rightarrow> string \<Rightarrow> terminal option" where
  "handle_replan ev kb t base_command feedback =
     (case replan ev (empty_state\<lparr>candidate_command := Some (JStr base_command),
               user_feedback := Some feedback\<rparr>) of
        None \<Rightarrow> None
      | Some (Inl e) \<Rightarrow> Some t
      | Some (Inr out) \<Rightarrow>
          (case as_str ''strip'' (value_or (candidate_command out) (JStr [])) of
             Inl e \<Rightarrow> Some t
           | Inr raw \<Rightarrow>
               let new_cmd = strip raw in
               if new_cmd = [] then Some t else Some (gate_and_dispatch kb t new_cmd)))"

subsection \<open>\<open>_try_auto_repair\<close>\<close>

text \<open>The branch taken when no fix was produced: replan, edit or cancel.\<close>

definition no_fix_choice ::
  "env \<Rightarrow> (nat \<Rightarrow> string option) \<Rightarrow> terminal \<Rightarrow> string \<Rightarrow> terminal option" where
  "no_fix_choice ev kb t failed =
     (case read_line_raw kb t of
        (l, t2) \<Rightarrow>
          if startswith (lower l) ''p'' then
            (case read_line_raw kb t2 of (fb, t3) \<Rightarrow> handle_replan ev kb t3 failed fb)
          else Some t2)"

text \<open>
  What follows a suggestion: the user's choice when the repair is interactive, then the
  gate and the dispatch of the repaired command.
\<close>

definition apply_repair ::
  "env \<Rightarrow> (nat \<Rightarrow> string option) \<Rightarrow> terminal \<Rightarrow> string \<Rightarrow> string \<Rightarrow> terminal option" where
  "apply_repair ev kb t1 failed repaired =
     (let t2 = t1\<lparr>last_repair_suggestion := Some repaired,
                  last_repaired_for_cmd := Some failed\<rparr>
      in if interactive_repair t2 then
           (case prompt_fix_choice kb t2 of
              (choice, t3) \<Rightarrow>
                if choice = ''cancel'' then Some t3
                else if choice = ''edit'' then Some t3
                else if choice = ''replan'' then
                  (case read_line_raw kb t3 of
                     (fb, t4) \<Rightarrow> handle_replan ev kb t4 failed fb)
                else Some (gate_and_dispatch kb t3 repaired))
         else Some (gate_and_dispatch kb t2 repaired))"

definition try_auto_repair ::
  "env \<Rightarrow> (nat \<Rightarrow> string option) \<Rightarrow> terminal \<Rightarrow> terminal option" where
  "try_auto_repair ev kb t =
     (if \<not> (truthy (last_failed_command t) \<and> truthy (last_error_text t)) then Some t
      else if \<not> auto_repair t then Some t
      else if repair_in_progress t then Some t
      else
        let failed = the (last_failed_command t);
            err = the (last_error_text t);
            t1 = t\<lparr>repair_in_progress := True,
                   repair_attempts := (repair_attempts t)(failed \<mapsto>
                      (case repair_attempts t failed of None \<Rightarrow> 0 | Some n \<Rightarrow> n) + 1)\<rparr>
        in map_option (\<lambda>t9. t9\<lparr>repair_in_progress := False\<rparr>)
             (case repair_command_if_needed ev failed err of
                None \<Rightarrow> None
              | Some None \<Rightarrow> no_fix_choice ev kb t1 failed
              | Some (Some repaired) \<Rightarrow>
                  if strip repaired = [] then no_fix_choice ev kb t1 failed
                  else apply_repair ev kb t1 failed repaired))"

subsection \<open>\<open>append_output_context\<close>\<close>

text \<open>
  \<open>int(code_str)\<close> for a decimal literal: white space around it, an optional sign, and
  digits that single underscores may separate; more digits than the interpreter's limit
  are refused. \<open>None\<close> stands for \<open>ValueError\<close>. The white space \<open>int\<close> accepts is not
  that of \<open>str.strip\<close>: the separators U+001C to U+001F are not part of it.
\<close>

definition int_space :: "char \<Rightarrow> bool" where
  "int_space c = (of_char c \<in> {9, 10, 11, 12, 13, 32, 133, 160 :: nat})"

definition is_digit :: "char \<Rightarrow> bool" where
  "is_digit c = in_range CHR ''0'' CHR ''9'' c"

fun digits_ok :: "bool \<Rightarrow> string \<Rightarrow> bool" where
  "digits_ok after_digit [] = after_digit"
| "digits_ok after_digit (c # cs) =
     (if is_digit c then digits_ok True cs
      else if c = CHR ''_'' \<and> after_digit then (cs \<noteq> [] \<and> is_digit (hd cs) \<and> digits_ok False cs)
      else False)"

fun digits_value :: "int \<Rightarrow> string \<Rightarrow> int" where
  "digits_value acc [] = acc"
| "digits_value acc (c # cs) =
     (if is_digit c then digits_value (10 * acc + (int (of_char c) - 48)) cs
      else digits_value acc cs)"

definition py_int :: "nat \<Rightarrow> string \<Rightarrow> int option" where
  "py_int limit s =
     (let body = rev (dropWhile int_space (rev (dropWhile int_space s)));
          unsigned = (case body of
                        [] \<Rightarrow> []
                      | c # cs \<Rightarrow> if c = CHR ''-'' \<or> c = CHR ''+'' then cs else c # cs);
          negative = (body \<noteq> [] \<and> hd body = CHR ''-'')
      in if \<not> digits_ok False unsigned then None
         else if 0 < limit \<and> limit < length (filter is_digit unsigned) then None
         else Some (if negative then - digits_value 0 unsigned else digits_value 0 unsigned))"

definition STATUS_PREFIX :: string where
  "STATUS_PREFIX = ''[[AI:STATUS:''"

text \<open>
  The test for a status line and the code it carries: \<open>exit_code = int(line[12:-2])\<close>,
  and 0 when that raises.
\<close>

definition is_status_line :: "string \<Rightarrow> bool" where
  "is_status_line line = (startswith line STATUS_PREFIX \<and> endswith line '']]'')"

definition status_code :: "env \<Rightarrow> string \<Rightarrow> int" where
  "status_code ev line =
     (case py_int (int_max_str_digits ev)
             (slice line (length STATUS_PREFIX) (length line - 2)) of
        Some n \<Rightarrow> n
      | None \<Rightarrow> 0)"

text \<open>
  One round of the loop \<open>for line in lines\<close>. The line is appended and the failure is
  recorded before the repair is tried.
\<close>

definition finish_command :: "terminal \<Rightarrow> terminal" where
  "finish_command t2 =
     t2\<lparr>pending_cmd := None, pending_output_start := length (last_output_lines t2)\<rparr>"

definition process_line ::
  "env \<Rightarrow> (nat \<Rightarrow> string option) \<Rightarrow> terminal \<Rightarrow> string \<Rightarrow> terminal option" where
  "process_line ev kb t0 line =
     (let t = t0\<lparr>last_output_lines := last_output_lines t0 @ [line]\<rparr> in
      if pending_cmd t \<noteq> None \<and> contains ''command not found'' (lower line) then
        (let start = max 0 (pending_output_start t);
             error_lines = drop start (last_output_lines t);
             t1 = t\<lparr>last_failed_command := pending_cmd t,
                    last_error_text := Some (join_nl error_lines)\<rparr>
         in map_option finish_command (try_auto_repair ev kb t1))
      else if is_status_line line then
        (if pending_cmd t \<noteq> None then
           map_option finish_command
             (if status_code ev line \<noteq> 0 then
                (let start = max 0 (pending_output_start t);
                     error_lines = drop start (butlast (last_output_lines t));
                     t1 = t\<lparr>last_failed_command := pending_cmd t,
                            last_error_text := Some (join_nl error_lines)\<rparr>
                 in try_auto_repair ev kb t1)
              else Some (t\<lparr>repair_attempts :=
                           (repair_attempts t)(the (pending_cmd t) := None)\<rparr>))
         else Some t)
      else Some t)"

text \<open>\<open>xs[-m:]\<close> for an integer \<open>m\<close>.\<close>

definition last_n :: "int \<Rightarrow> 'a list \<Rightarrow> 'a list" where
  "last_n m xs =
     (if 0 < m then drop (length xs - nat m) xs
      else if m = 0 then xs
      else drop (nat (- m)) xs)"

text \<open>The loop over the lines of a chunk; it stops where a round does not return.\<close>

fun process_lines ::
  "env \<Rightarrow> (nat \<Rightarrow> string option) \<Rightarrow> terminal \<Rightarrow> string list \<Rightarrow> terminal option" where
  "process_lines ev kb t [] = Some t"
| "process_lines ev kb t (line # ls) =
     (case process_line ev kb t line of
        None \<Rightarrow> None
      | Some t2 \<Rightarrow> process_lines ev kb t2 ls)"

text \<open>
  \<open>append_output_context(data)\<close>; \<open>text\<close> is the decoded chunk
  \<open>data.decode("utf-8", "replace")\<close>.
\<close>

definition append_output_context ::
  "env \<Rightarrow> (nat \<Rightarrow> string option) \<Rightarrow> terminal \<Rightarrow> string \<Rightarrow> terminal option" where
  "append_output_context ev kb t text =
     (case process_lines ev kb t (splitlines text) of
        None \<Rightarrow> None
      | Some t2 \<Rightarrow>
          if int (length (last_output_lines t2)) > max_context_lines t2
          then Some (t2\<lparr>last_output_lines :=
                         last_n (max_context_lines t2) (last_output_lines t2)\<rparr>)
          else Some t2)"

text \<open>
  The chunks the main loop passes to \<open>append_output_context\<close>, one call after the other.
\<close>

fun append_chunks ::
  "env \<Rightarrow> (nat \<Rightarrow> string option) \<Rightarrow> terminal \<Rightarrow> string list \<Rightarrow> terminal option" where
  "append_chunks ev kb t [] = Some t"
| "append_chunks ev kb t (c # cs) =
     (case append_output_context ev kb t c of
        None \<Rightarrow> None
      | Some t2 \<Rightarrow> append_chunks ev kb t2 cs)"

text \<open>
  The two assignments with which \<open>gate_and_send\<close> marks the start of a command's
  output, just before it sends the line to the shell.
\<close>

definition mark_pending :: "terminal \<Rightarrow> string \<Rightarrow> terminal" where
  "mark_pending t line =
     t\<lparr>pending_cmd := Some line, pending_output_start := length (last_output_lines t)\<rparr>"

text \<open>
  What the repair loop may not touch, for the results below: the buffer, its capacity,
  the captured command and error text, and the switch of the repair itself.
\<close>

definition same_capture :: "terminal \<Rightarrow> terminal \<Rightarrow> bool" where
  "same_capture t t2 =
     (last_output_lines t2 = last_output_lines t \<and> max_context_lines t2 = max_context_lines t \<and>
      last_error_text t2 = last_error_text t \<and> last_failed_command t2 = last_failed_command t \<and>
      auto_repair t2 = auto_repair t)"

section \<open>Concrete inputs\<close>

text \<open>
  Environments and requests at which the results below are instantiated. In all of them
  the client can be built, \<open>repr\<close> puts a string in single quotes, every command exits
  with code 0, and the interpreter is Python 3.11 or later with its default digit limit.
  \<open>quiet_env\<close> has a provider that fails at once; \<open>late_env\<close> one that answers late;
  \<open>hanging_env\<close> one whose call never completes; \<open>unquoted_env\<close> one that answers
  every prompt with the plain text \<open>echo "hi\<close>, which no JSON decoder accepts;
  \<open>number_env\<close> one that answers \<open>42\<close>, which the decoder reads as a number.
\<close>

definition base_env :: "(string \<Rightarrow> llm_reply) \<Rightarrow> (string \<Rightarrow> json option) \<Rightarrow> env" where
  "base_env l loads = \<lparr>get_llm = None, llm = l, futures_timeout_is_builtin = True,
     json_loads = loads, str_repr = (\<lambda>s. CHR 0x27 # s @ [CHR 0x27]),
     shell = (\<lambda>c. Some (Inr \<lparr>exit_code = 0, stdout = [], stderr = []\<rparr>)), DRY_RUN = None,
     getcwd = ''/home/user'', int_max_str_digits = 4300\<rparr>"

definition quiet_env :: env where
  "quiet_env = base_env (\<lambda>p. Fails (LLMFault ''connection refused'')) (\<lambda>t. None)"

definition late_env :: env where
  "late_env = base_env (\<lambda>p. Late) (\<lambda>t. None)"

definition hanging_env :: env where
  "hanging_env = base_env (\<lambda>p. Never) (\<lambda>t. None)"

definition unquoted_env :: env where
  "unquoted_env = base_env (\<lambda>p. Reply ''echo \"hi'') (\<lambda>t. None)"

definition number_env :: env where
  "number_env = base_env (\<lambda>p. Reply ''42'') (\<lambda>t. if t = ''42'' then Some (JInt 42) else None)"

definition blank_preexec :: payload where
  "blank_preexec = \<lparr>p_event = Some ''preexec'', p_cmd = Some ''   '', p_cwd = None,
     p_exit_code = None, p_stderr_tail = None\<rparr>"

definition failed_postexec :: payload where
  "failed_postexec = \<lparr>p_event = Some ''postexec'', p_cmd = Some ''echo hi'', p_cwd = None,
     p_exit_code = Some 2, p_stderr_tail = Some ''sh: syntax error''\<rparr>"

definition english_request :: State where
  "english_request = empty_state\<lparr>user_request := Some ''say hi''\<rparr>"

definition fix_request :: State where
  "fix_request = empty_state\<lparr>last_command := Some (JStr ''ls -z''),
     last_error := Some ''ls: invalid option''\<rparr>"

definition direct_request :: State where
  "direct_request = empty_state\<lparr>direct_command := Some ''ls -z''\<rparr>"

text \<open>
  Two candidates with a placeholder in the command, as \<open>danger_check\<close> leaves them: one
  without an explanation, one with the explanation the provider gave.
\<close>

definition placeholder_state :: State where
  "placeholder_state = empty_state\<lparr>user_request := Some ''enter a directory'',
     candidate_command := Some (JStr ''cd <directory_name>''),
     candidate_explanation := Some (JStr []),
     candidate_mode := Some ''run'', danger := Some False, danger_reasons := Some []\<rparr>"

definition explained_placeholder_state :: State where
  "explained_placeholder_state = placeholder_state\<lparr>
     candidate_explanation := Some (JStr ''Change into the directory'')\<rparr>"

text \<open>
  A terminal that has printed two lines, then tracks the command \<open>ls -z\<close>, then has
  received the first line of its output.
\<close>

definition tracked_terminal :: terminal where
  "tracked_terminal = mark_pending
     ((init_terminal False False)\<lparr>last_output_lines := [''$ ls'', ''total 0'']\<rparr>) ''ls -z''"

definition failing_terminal :: terminal where
  "failing_terminal = tracked_terminal\<lparr>last_output_lines :=
     [''$ ls'', ''total 0'', ''ls: invalid option -- z'']\<rparr>"

definition small_terminal :: terminal where
  "small_terminal = (init_terminal False False)\<lparr>max_context_lines := 2,
     last_output_lines := [''a'']\<rparr>"

section \<open>Results: routing\<close>

lemma orelse_same: "orelse x x = x"
  by (cases x) (auto simp: orelse_def)

text \<open>The router returns the state it was given; merging it changes no key that is declared.\<close>

lemma merge_same: "merge s s = s\<lparr>source := None, strict_json := None\<rparr>"
  by (simp add: merge_def orelse_same)

lemma route_merge_same: "route (merge s s) = route s"
  by (simp add: merge_same route_def)

text \<open>
  C1 (as stated, refuted). The claim says that a request with more than one input kind
  populated is rejected by \<open>route\<close>. The request below carries a natural-language
  request and a direct command; \<open>route\<close> accepts it and selects \<open>from_english\<close>.
\<close>

theorem C1_route_accepts_two_kinds:
  "populated_kinds (empty_state\<lparr>user_request := Some ''list files'',
        direct_command := Some ''ls''\<rparr>) = 2 \<and>
   route (empty_state\<lparr>user_request := Some ''list files'',
        direct_command := Some ''ls''\<rparr>) = Inr ''from_english''"
  by (simp add: populated_kinds_def nl_populated_def err_populated_def
      direct_populated_def route_def empty_state_def)

text \<open>
  C1 (amended). \<open>route\<close> rejects a request exactly when no input kind is populated, and
  the graph then stops at the router with that error, before any other node runs. A
  request with exactly one kind populated is routed to the step of that kind.
\<close>

theorem C1_route_rejects_iff_nothing_populated:
  "(isl (route state) \<longleftrightarrow> populated_kinds state = 0) \<and>
   (populated_kinds state = 0 \<longrightarrow>
      run_graph ev (Suc k) Router state ins =
        ([Router], Raised (ValueError ''Provide either --english or --fix with --cmd and --err''))) \<and>
   (populated_kinds state = 1 \<and> nl_populated state \<longrightarrow> route state = Inr ''from_english'') \<and>
   (populated_kinds state = 1 \<and> err_populated state \<longrightarrow> route state = Inr ''from_error'') \<and>
   (populated_kinds state = 1 \<and> direct_populated state \<longrightarrow> route state = Inr ''from_direct'')"
proof -
  have "run_graph ev (Suc k) Router state ins =
      ([Router], Raised (ValueError ''Provide either --english or --fix with --cmd and --err''))"
    if "populated_kinds state = 0"
  proof -
    from that have "route state =
        Inl (ValueError ''Provide either --english or --fix with --cmd and --err'')"
      by (auto simp: route_def populated_kinds_def nl_populated_def err_populated_def
          direct_populated_def split: if_splits)
    then show ?thesis
      by (simp add: route_merge_same next_node_def)
  qed
  then show ?thesis
    by (auto simp: populated_kinds_def nl_populated_def err_populated_def
        direct_populated_def route_def split: if_splits)
qed

theorem C1_route_rejects_iff_nothing_populated_witness:
  "isl (route empty_state) \<and> populated_kinds empty_state = 0 \<and>
   run_graph quiet_env (Suc 0) Router empty_state [] =
     ([Router], Raised (ValueError ''Provide either --english or --fix with --cmd and --err'')) \<and>
   populated_kinds (empty_state\<lparr>user_request := Some ''list files''\<rparr>) = 1 \<and>
   nl_populated (empty_state\<lparr>user_request := Some ''list files''\<rparr>) \<and>
   route (empty_state\<lparr>user_request := Some ''list files''\<rparr>) = Inr ''from_english'' \<and>
   populated_kinds fix_request = 1 \<and> err_populated fix_request \<and>
   route fix_request = Inr ''from_error'' \<and>
   populated_kinds direct_request = 1 \<and> direct_populated direct_request \<and>
   route direct_request = Inr ''from_direct''"
proof -
  have z: "populated_kinds empty_state = 0"
    by (simp add: populated_kinds_def nl_populated_def err_populated_def direct_populated_def
        empty_state_def)
  have n: "populated_kinds (empty_state\<lparr>user_request := Some ''list files''\<rparr>) = 1"
    "nl_populated (empty_state\<lparr>user_request := Some ''list files''\<rparr>)"
    by (simp_all add: populated_kinds_def nl_populated_def err_populated_def
        direct_populated_def empty_state_def)
  have e: "populated_kinds fix_request = 1" "err_populated fix_request"
    by (simp_all add: populated_kinds_def nl_populated_def err_populated_def
        direct_populated_def fix_request_def empty_state_def)
  have d: "populated_kinds direct_request = 1" "direct_populated direct_request"
    by (simp_all add: populated_kinds_def nl_populated_def err_populated_def
        direct_populated_def direct_request_def empty_state_def)
  from z n e d
    C1_route_rejects_iff_nothing_populated [of empty_state quiet_env 0 "[]"]
    C1_route_rejects_iff_nothing_populated [of "empty_state\<lparr>user_request := Some ''list files''\<rparr>"]
    C1_route_rejects_iff_nothing_populated [of fix_request]
    C1_route_rejects_iff_nothing_populated [of direct_request]
  show ?thesis
    by (simp del: run_graph.simps)
qed

section \<open>Results: the safety classifier\<close>

text \<open>
  The equation of \<open>ends\<close> for \<open>Star\<close> rewrites a term into one that holds it again; it is
  used for evaluation only.
\<close>

declare ends.simps(8) [simp del]

lemmas classifier_eval = check_danger_def pattern_reasons_def DANGEROUS_PATTERNS_def re_search_def
  opt_def plus_def not_nl_def sp_def wd_def is_space_def is_word_def in_range_def
  REDIRECT_PATTERN_def strip_def lstrip_def rstrip_def first_token_def shlex_split_def
  shlex_whitespace_def shlex_quote_def emit_def ALLOWED_PREFIXES_def ends.simps(8)

lemma strip_blank: "list_all is_space s \<Longrightarrow> strip s = []"
  by (auto simp: strip_def lstrip_def rstrip_def list_all_iff dest: set_dropWhileD)

lemma get_or_Nil: "get_or x [] = get_default x []"
  by (cases x) auto

text \<open>The classifier on the example commands of the specification.\<close>

lemma check_danger_rm_rf_root:
  "check_danger ''rm -rf /'' = Inr \<lparr>is_danger = False, reasons = []\<rparr>"
  by (simp add: classifier_eval)

lemma check_danger_fork_bomb:
  "check_danger '':(){ :|:; };:'' = Inr \<lparr>is_danger = False, reasons = []\<rparr>"
  by (simp add: classifier_eval)

lemma check_danger_mkfs:
  "check_danger ''mkfs.ext4 /dev/sda1'' =
     Inr \<lparr>is_danger = True, reasons = [''Filesystem creation (mkfs)'']\<rparr>"
  by (simp add: classifier_eval)

lemma check_danger_curl_bash:
  "check_danger ''curl x | bash'' =
     Inr \<lparr>is_danger = True, reasons = [''Pipe remote script to shell'']\<rparr>"
  by (simp add: classifier_eval)

lemma check_danger_echo_reboot:
  "check_danger ''echo reboot'' =
     Inr \<lparr>is_danger = True, reasons = [''System power action'']\<rparr>"
  by (simp add: classifier_eval)

text \<open>
  The two signatures fire when a word character stands next to the flag or the colon:
  \<open>\b\<close> before \<open>-rf\<close>, and before and after the fork bomb, asks for one there.
\<close>

lemma check_danger_rm_glued_flag:
  "check_danger ''rm x-rf /'' =
     Inr \<lparr>is_danger = True, reasons = [''Recursive delete from root'']\<rparr>"
  by (simp add: classifier_eval)

lemma check_danger_fork_bomb_in_word:
  "check_danger ''a:(){ :|:; };:b'' = Inr \<lparr>is_danger = True, reasons = [''Fork bomb'']\<rparr>"
  by (simp add: classifier_eval)

subsection \<open>What a match needs\<close>

text \<open>
  A match of a sequence that starts with \<open>\b\<close> and a literal starts with that literal, and
  a match of a sequence that holds a single character needs that character in the text.
  So a text without the words of \<open>TRIGGERS\<close> matches no signature.
\<close>

lemma ends_seq_nonempty:
  "ends (Seq a b) q \<noteq> [] \<Longrightarrow> \<exists>q1\<in>set (ends a q). ends b q1 \<noteq> []"
  by (auto simp: concat_eq_Nil_conv)

lemma ends_lit_startswith: "ends (lit w) (p, s) \<noteq> [] \<Longrightarrow> startswith s w"
proof (induction w arbitrary: p s)
  case Nil
  then show ?case by simp
next
  case (Cons c cs)
  then obtain q1 where q1: "q1 \<in> set (ends (Chr c) (p, s))" "ends (lit cs) q1 \<noteq> []"
    using ends_seq_nonempty [of "Chr c" "lit cs" "(p, s)"] by auto
  then obtain xs where "s = c # xs" "q1 = (Some c, xs)"
    by (auto split: list.splits if_splits)
  with q1(2) Cons.IH [of "Some c" xs] show ?case by simp
qed

lemma ends_rest_subset: "q1 \<in> set (ends r q) \<Longrightarrow> set (snd q1) \<subseteq> set (snd q)"
proof (induction r q arbitrary: q1 rule: ends.induct)
  case (1 q)
  then show ?case by simp
next
  case (2 c p s)
  then show ?case by (auto split: list.splits if_splits)
next
  case (3 P p s)
  then show ?case by (auto split: list.splits if_splits)
next
  case (4 p s)
  then show ?case by (auto split: if_splits)
next
  case (5 p s)
  then show ?case by (auto split: if_splits)
next
  case (6 a b q)
  from "6.prems" obtain q2 where q2: "q2 \<in> set (ends a q)" "q1 \<in> set (ends b q2)"
    by auto
  from "6.IH"(1) [OF q2(1)] "6.IH"(2) [OF q2(1) q2(2)] show ?case
    by blast
next
  case (7 a b q)
  from "7.prems" have "q1 \<in> set (ends a q) \<or> q1 \<in> set (ends b q)"
    by auto
  with "7.IH" show ?case
    by blast
next
  case (8 a q)
  from "8.prems" have "q1 = q \<or> (\<exists>q2. q2 \<in> set (ends a q) \<and>
      length (snd q2) < length (snd q) \<and> q1 \<in> set (ends (Star a) q2))"
  proof -
    from "8.prems" have "q1 \<in> set (q # concat (map (ends (Star a))
        (filter (\<lambda>q'. length (snd q') < length (snd q)) (ends a q))))"
      by (subst (asm) ends.simps(8)) (simp only: set_remdups)
    then show ?thesis
      by auto
  qed
  then show ?case
  proof
    assume "q1 = q"
    then show ?thesis by simp
  next
    assume "\<exists>q2. q2 \<in> set (ends a q) \<and>
      length (snd q2) < length (snd q) \<and> q1 \<in> set (ends (Star a) q2)"
    then obtain q2 where q2: "q2 \<in> set (ends a q)" "length (snd q2) < length (snd q)"
      "q1 \<in> set (ends (Star a) q2)" by blast
    from "8.IH"(1) [OF q2(1)] have a: "set (snd q2) \<subseteq> set (snd q)" .
    have "q2 \<in> set (filter (\<lambda>q'. length (snd q') < length (snd q)) (ends a q))"
      using q2 by simp
    from "8.IH"(2) [OF this q2(3)] a show ?thesis by blast
  qed
qed

lemma ends_seqs_needs_char:
  "ends (seqs rs) q \<noteq> [] \<Longrightarrow> Chr c \<in> set rs \<Longrightarrow> c \<in> set (snd q)"
proof (induction rs arbitrary: q)
  case Nil
  then show ?case by simp
next
  case (Cons r rs)
  from Cons.prems(1) obtain q1 where q1: "q1 \<in> set (ends r q)" "ends (seqs rs) q1 \<noteq> []"
    using ends_seq_nonempty [of r "seqs rs" q] by auto
  show ?case
  proof (cases "r = Chr c")
    case True
    with q1(1) show ?thesis
      by (cases q) (auto split: list.splits if_splits)
  next
    case False
    with Cons.prems(2) have "Chr c \<in> set rs" by simp
    with q1(2) have "c \<in> set (snd q1)" by (rule Cons.IH)
    with ends_rest_subset [OF q1(1)] show ?thesis by blast
  qed
qed

lemma ends_head_lit:
  assumes "ends (seqs (WordB # lit w # rs)) q \<noteq> []"
  shows "startswith (snd q) w"
proof -
  from assms obtain q1 where q1: "q1 \<in> set (ends WordB q)"
    "ends (Seq (lit w) (seqs rs)) q1 \<noteq> []"
    using ends_seq_nonempty [of WordB "Seq (lit w) (seqs rs)" q] by auto
  from q1(1) have "q1 = q"
    by (cases q) (auto split: if_splits)
  with q1(2) have "ends (lit w) q \<noteq> []"
    using ends_seq_nonempty [of "lit w" "seqs rs" q] by auto
  then show ?thesis
    using ends_lit_startswith [of w "fst q" "snd q"] by simp
qed

lemma ends_head_alt:
  assumes "ends (seqs (WordB # Alt (lit a) (lit b) # rs)) q \<noteq> []"
  shows "startswith (snd q) a \<or> startswith (snd q) b"
proof -
  from assms obtain q1 where q1: "q1 \<in> set (ends WordB q)"
    "ends (Seq (Alt (lit a) (lit b)) (seqs rs)) q1 \<noteq> []"
    using ends_seq_nonempty [of WordB "Seq (Alt (lit a) (lit b)) (seqs rs)" q] by auto
  from q1(1) have "q1 = q"
    by (cases q) (auto split: if_splits)
  with q1(2) have "ends (Alt (lit a) (lit b)) q \<noteq> []"
    using ends_seq_nonempty [of "Alt (lit a) (lit b)" "seqs rs" q] by auto
  then have "ends (lit a) q \<noteq> [] \<or> ends (lit b) q \<noteq> []"
    by auto
  then show ?thesis
    using ends_lit_startswith [of a "fst q" "snd q"] ends_lit_startswith [of b "fst q" "snd q"]
    by auto
qed

lemma search_from_position:
  "search_from r (p, s) \<Longrightarrow> \<exists>p2 pre s2. s = pre @ s2 \<and> ends r (p2, s2) \<noteq> []"
proof (induction s arbitrary: p)
  case Nil
  then show ?case by auto
next
  case (Cons c cs)
  show ?case
  proof (cases "ends r (p, c # cs) \<noteq> []")
    case True
    then show ?thesis by (metis append_Nil)
  next
    case False
    with Cons.prems have "search_from r (Some c, cs)" by simp
    then obtain p2 pre s2 where "cs = pre @ s2" "ends r (p2, s2) \<noteq> []"
      using Cons.IH by blast
    then have "c # cs = (c # pre) @ s2 \<and> ends r (p2, s2) \<noteq> []" by simp
    then show ?thesis by blast
  qed
qed

lemma startswith_contains: "startswith s2 w \<Longrightarrow> contains w (pre @ s2)"
proof (induction pre)
  case Nil
  then show ?case by (cases s2) (auto elim: startswith.elims)
next
  case (Cons c pre)
  then show ?case by simp
qed

lemma search_head_lit:
  assumes "re_search (seqs (WordB # lit w # rs)) s"
  shows "contains w s"
proof -
  from assms obtain p2 pre s2 where s: "s = pre @ s2"
    and e: "ends (seqs (WordB # lit w # rs)) (p2, s2) \<noteq> []"
    unfolding re_search_def using search_from_position by blast
  from ends_head_lit [OF e] have "startswith s2 w" by simp
  with s show ?thesis by (simp add: startswith_contains)
qed

lemma search_head_alt:
  assumes "re_search (seqs (WordB # Alt (lit a) (lit b) # rs)) s"
  shows "contains a s \<or> contains b s"
proof -
  from assms obtain p2 pre s2 where s: "s = pre @ s2"
    and e: "ends (seqs (WordB # Alt (lit a) (lit b) # rs)) (p2, s2) \<noteq> []"
    unfolding re_search_def using search_from_position by blast
  from ends_head_alt [OF e] have "startswith s2 a \<or> startswith s2 b" by simp
  with s show ?thesis by (auto simp: startswith_contains)
qed

lemma search_needs_char:
  assumes "re_search (seqs rs) s" and "Chr c \<in> set rs"
  shows "contains [c] s"
proof -
  from assms(1) obtain p2 pre s2 where s: "s = pre @ s2"
    and e: "ends (seqs rs) (p2, s2) \<noteq> []"
    unfolding re_search_def using search_from_position by blast
  from ends_seqs_needs_char [OF e assms(2)] have "c \<in> set s2" by simp
  with s have "c \<in> set s" by simp
  then show ?thesis by (induction s) auto
qed

lemma search_alt:
  "re_search (Alt a b) s \<Longrightarrow> re_search a s \<or> re_search b s"
proof -
  have "search_from (Alt a b) (p, s) \<Longrightarrow> search_from a (p, s) \<or> search_from b (p, s)" for p
    by (induction s arbitrary: p) auto
  then show "re_search (Alt a b) s \<Longrightarrow> re_search a s \<or> re_search b s"
    by (simp add: re_search_def)
qed

lemma no_trigger_no_signature:
  assumes "\<forall>w\<in>set TRIGGERS. \<not> contains w s"
  shows "pattern_reasons s = [] \<and> \<not> re_search REDIRECT_PATTERN s"
proof -
  from assms have t: "\<not> contains ''rm'' s" "\<not> contains ''dd'' s" "\<not> contains ''mkfs'' s"
    "\<not> contains '':'' s" "\<not> contains ''chown'' s" "\<not> contains ''chmod'' s"
    "\<not> contains ''shred'' s" "\<not> contains ''shutdown'' s" "\<not> contains ''reboot'' s"
    "\<not> contains ''halt'' s" "\<not> contains ''mount'' s" "\<not> contains ''userdel'' s"
    "\<not> contains ''kill'' s" "\<not> contains ''>'' s" "\<not> contains ''curl'' s"
    "\<not> contains ''wget'' s"
    by (simp_all add: TRIGGERS_def)
  have fork: "\<not> re_search (seqs [WordB, Chr CHR '':'', Star sp, lit ''()'', Star sp,
      Chr CHR ''{'', Star sp, lit '':|:'', Star sp, Chr CHR '';'', Star sp, Chr CHR ''}'',
      Star sp, Chr CHR '';'', Star sp, Chr CHR '':'', WordB]) s"
  proof
    assume "re_search (seqs [WordB, Chr CHR '':'', Star sp, lit ''()'', Star sp,
      Chr CHR ''{'', Star sp, lit '':|:'', Star sp, Chr CHR '';'', Star sp, Chr CHR ''}'',
      Star sp, Chr CHR '';'', Star sp, Chr CHR '':'', WordB]) s"
    then have "contains '':'' s" by (rule search_needs_char) simp
    with t(4) show False ..
  qed
  have etc: "\<not> re_search (seqs [WordB, Alt (lit ''echo'') (lit ''printf''), WordB,
      Star not_nl, Star sp, Chr CHR ''>'', Star sp, lit ''/etc/'', plus wd]) s"
  proof
    assume "re_search (seqs [WordB, Alt (lit ''echo'') (lit ''printf''), WordB,
      Star not_nl, Star sp, Chr CHR ''>'', Star sp, lit ''/etc/'', plus wd]) s"
    then have "contains ''>'' s" by (rule search_needs_char) simp
    with t(14) show False ..
  qed
  have redirect: "\<not> re_search REDIRECT_PATTERN s"
  proof
    assume "re_search REDIRECT_PATTERN s"
    then have "contains ''>'' s"
      unfolding REDIRECT_PATTERN_def by (rule search_needs_char) simp
    with t(14) show False ..
  qed
  have "\<not> re_search p s" if "(p, l) \<in> set DANGEROUS_PATTERNS" for p l
    using that t fork etc unfolding DANGEROUS_PATTERNS_def
    by (auto simp del: seqs.simps lit.simps dest!: search_alt search_head_lit search_head_alt)
  then have "pattern_reasons s = []"
    by (auto simp: pattern_reasons_def filter_empty_conv)
  with redirect show ?thesis by simp
qed

lemma check_danger_without_triggers:
  assumes "first_token (strip cmd) = Inr first"
    and "first \<in> set ALLOWED_PREFIXES \<or> \<not> contains ''sudo'' (strip cmd)"
    and "\<forall>w\<in>set TRIGGERS. \<not> contains w (strip cmd)"
  shows "check_danger cmd = Inr \<lparr>is_danger = False, reasons = []\<rparr>"
  using assms(1,2) no_trigger_no_signature [OF assms(3)]
  by (auto simp: check_danger_def Let_def)

subsection \<open>The examples of the specification\<close>

text \<open>
  C2 (the code departs from the claim). Of the four example commands, \<open>mkfs.ext4 /dev/sda1\<close>
  and \<open>curl x | bash\<close> are classified as dangerous, but \<open>rm -rf /\<close> and the fork-bomb
  literal get the verdict "not dangerous" with no reason. The signatures labelled
  \<open>Recursive delete from root\<close> and \<open>Fork bomb\<close> ask for a word boundary before \<open>-rf\<close>
  and around the colons, which needs a word character there: they fire on \<open>rm x-rf /\<close>
  and on the literal between two letters, and not on the commands they are written for.
\<close>

theorem C2_examples_missed_by_word_boundary:
  "check_danger ''rm -rf /'' = Inr \<lparr>is_danger = False, reasons = []\<rparr> \<and>
   check_danger '':(){ :|:; };:'' = Inr \<lparr>is_danger = False, reasons = []\<rparr> \<and>
   check_danger ''mkfs.ext4 /dev/sda1'' =
     Inr \<lparr>is_danger = True, reasons = [''Filesystem creation (mkfs)'']\<rparr> \<and>
   check_danger ''curl x | bash'' =
     Inr \<lparr>is_danger = True, reasons = [''Pipe remote script to shell'']\<rparr> \<and>
   check_danger ''rm x-rf /'' =
     Inr \<lparr>is_danger = True, reasons = [''Recursive delete from root'']\<rparr> \<and>
   check_danger ''a:(){ :|:; };:b'' = Inr \<lparr>is_danger = True, reasons = [''Fork bomb'']\<rparr>"
  using check_danger_rm_rf_root check_danger_fork_bomb check_danger_mkfs
    check_danger_curl_bash check_danger_rm_glued_flag check_danger_fork_bomb_in_word
  by simp

text \<open>
  The same word boundary stands before the flags of three more signatures, which miss
  the ordinary spelling of what they are labelled to catch.
\<close>

lemma check_danger_flag_signatures_missed:
  "check_danger ''chmod -R 777 /'' = Inr \<lparr>is_danger = False, reasons = []\<rparr>"
  "check_danger ''mount --bind / /proc'' = Inr \<lparr>is_danger = False, reasons = []\<rparr>"
  "check_danger ''userdel --remove bob'' = Inr \<lparr>is_danger = False, reasons = []\<rparr>"
  by (simp_all add: classifier_eval)

text \<open>
  The allow-list is consulted for the \<open>sudo\<close> rule only: the signatures are searched in
  the whole text of every command, so a command of an allow-listed utility is classified
  as dangerous when its text matches one (\<open>echo reboot\<close> above), and as not dangerous when
  it holds none of the words of \<open>TRIGGERS\<close>.
\<close>

lemma check_danger_allowlisted_plain:
  "check_danger ''ls -la /tmp'' = Inr \<lparr>is_danger = False, reasons = []\<rparr>"
  by (simp add: classifier_eval)

subsection \<open>Totality\<close>

lemma check_danger_unclosed_quote:
  "check_danger ''echo \"hi'' = Inl (ValueError ''No closing quotation'')"
  by (simp add: classifier_eval)

lemma check_danger_trailing_backslash:
  "check_danger (''echo hi'' @ [CHR 0x5C]) = Inl (ValueError ''No escaped character'')"
  by (simp add: classifier_eval)

text \<open>
  C3 (the code departs from the claim). On a command with an unclosed quote,
  \<open>shlex.split\<close> raises \<open>ValueError\<close> and \<open>check_danger\<close> lets it through: the caller gets
  an exception, not a verdict.
\<close>

theorem C3_check_danger_raises_on_unclosed_quote:
  "check_danger ''echo \"hi'' = Inl (ValueError ''No closing quotation'')"
  by (rule check_danger_unclosed_quote)

text \<open>Where tokenisation succeeds, the classifier does return a verdict.\<close>

lemma check_danger_total_when_tokenised:
  "first_token (strip cmd) = Inr first \<Longrightarrow> \<exists>v. check_danger cmd = Inr v"
  by (simp add: check_danger_def Let_def)

section \<open>Results: the translation client\<close>

lemma invoke_fault:
  "fault_of ev (llm ev p) = Some e \<Longrightarrow> llm_invoke_with_timeout ev p = Some (Inl e)"
  by (cases "llm ev p") (auto simp: llm_invoke_with_timeout_def)

lemma invoke_reply:
  "llm ev p = Reply c \<Longrightarrow> llm_invoke_with_timeout ev p = Some (Inr c)"
  by (simp add: llm_invoke_with_timeout_def)

lemma invoke_never:
  "llm_invoke_with_timeout ev p = None \<longleftrightarrow> llm ev p = Never"
  by (cases "llm ev p") (auto simp: llm_invoke_with_timeout_def)

text \<open>
  The loop returns unless a call of the provider never completes, and it does not return
  when the first call never completes.
\<close>

lemma translate_attempts_returns:
  "\<forall>p\<in>set ps. llm ev p \<noteq> Never \<Longrightarrow> \<exists>r. translate_attempts ev strict ps last_exc = Some r"
proof (induction ps arbitrary: last_exc)
  case Nil
  then show ?case by (cases last_exc) auto
next
  case (Cons p ps)
  then have "llm_invoke_with_timeout ev p \<noteq> None"
    by (simp add: invoke_never)
  with Cons show ?case
    by (auto split: option.splits sum.splits)
qed

lemma translate_attempts_blocks:
  "llm ev p = Never \<Longrightarrow> translate_attempts ev strict (p # ps) last_exc = None"
  by (simp add: llm_invoke_with_timeout_def)

text \<open>
  When every attempt faults, the loop ends with the explain-only candidate that carries
  the text of a fault that occurred.
\<close>

lemma translate_attempts_all_fault:
  "\<forall>p\<in>set ps. fault_of ev (llm ev p) \<noteq> None \<Longrightarrow>
   ps \<noteq> [] \<or> (\<exists>e p. last_exc = Some e \<and> fault_of ev (llm ev p) = Some e) \<Longrightarrow>
   \<exists>e p. fault_of ev (llm ev p) = Some e \<and>
     translate_attempts ev strict ps last_exc =
        Some (Inr (candidate (JStr []) (JStr (''LLM error: '' @ err_str e)) ''explain''))"
proof (induction ps arbitrary: last_exc)
  case Nil
  then show ?case by auto
next
  case (Cons p ps)
  then obtain e where e: "fault_of ev (llm ev p) = Some e" by auto
  then have "\<exists>e' p'. fault_of ev (llm ev p') = Some e' \<and>
      translate_attempts ev strict ps (Some e) =
        Some (Inr (candidate (JStr []) (JStr (''LLM error: '' @ err_str e')) ''explain''))"
    using Cons.IH [of "Some e"] Cons.prems by auto
  with e show ?case
    by (simp add: invoke_fault)
qed

lemma translate_attempts_all_late:
  "\<forall>p\<in>set ps. llm ev p = Late \<Longrightarrow>
   ps \<noteq> [] \<or> last_exc = Some (TimeoutError ''LLM request timed out'') \<Longrightarrow>
   translate_attempts ev strict ps last_exc =
        Some (Inr (candidate (JStr []) (JStr ''LLM error: LLM request timed out'') ''explain''))"
proof (induction ps arbitrary: last_exc)
  case Nil
  then show ?case by auto
next
  case (Cons p ps)
  then show ?case
    by (simp add: llm_invoke_with_timeout_def)
qed

lemma parse_unparseable:
  "unparseable loads content \<Longrightarrow>
   parse_llm_json loads content = plain_text_fallback (unfence (strip content))"
  by (auto simp: parse_llm_json_def unparseable_def Let_def split: option.splits)

lemma lower_run: "lower (strip ''run'') = ''run''"
  by (simp add: lower_def lower_char_def strip_def lstrip_def rstrip_def is_space_def)

lemma plain_note_prefix:
  "startswith (lower PLAIN_TEXT_NOTE) ''model returned plain text''"
  by (simp add: PLAIN_TEXT_NOTE_def lower_def lower_char_def char_of_def bit_Suc_0_iff)

text \<open>
  An answer that is not JSON is not a fault for the loop: without \<open>strict_json\<close> the text
  becomes the command, to be run; with it, the attempt is skipped.
\<close>

lemma reply_candidate_plain_text:
  "reply_candidate False (plain_text_fallback text) =
     Inr (Some (candidate (JStr text) (JStr PLAIN_TEXT_NOTE) ''run''))"
  by (simp add: reply_candidate_def plain_text_fallback_def as_str_def lower_run)

lemma reply_candidate_plain_text_strict:
  "reply_candidate True (plain_text_fallback text) = Inr None"
  by (simp add: reply_candidate_def plain_text_fallback_def as_str_def plain_note_prefix)

lemma reply_candidate_not_object:
  "type_name v \<noteq> ''dict'' \<Longrightarrow> reply_candidate strict v = Inl (no_attribute v ''get'')"
  by (cases v) (simp_all add: reply_candidate_def)

lemma translate_attempts_plain_text:
  assumes "unparseable (json_loads ev) content" and "llm ev p = Reply content" and "\<not> strict"
  shows "translate_attempts ev strict (p # ps) last_exc =
     Some (Inr (candidate (JStr (unfence (strip content))) (JStr PLAIN_TEXT_NOTE) ''run''))"
  using assms
  by (simp add: invoke_reply parse_unparseable reply_candidate_plain_text)

lemma translate_attempts_plain_text_strict:
  assumes "\<forall>p\<in>set ps. \<exists>c. llm ev p = Reply c \<and> unparseable (json_loads ev) c"
  shows "translate_attempts ev True ps None =
     Some (Inr (candidate (JStr []) (JStr []) ''explain''))"
  using assms
proof (induction ps)
  case Nil
  then show ?case by simp
next
  case (Cons p ps)
  then obtain c where "llm ev p = Reply c" and "unparseable (json_loads ev) c" by auto
  with Cons show ?case
    by (simp add: invoke_reply parse_unparseable reply_candidate_plain_text_strict)
qed

lemma parse_decoded:
  "loads (unfence (strip content)) = Some v \<Longrightarrow> parse_llm_json loads content = v"
  by (simp add: parse_llm_json_def Let_def)

lemma translate_attempts_not_object:
  assumes "llm ev p = Reply content" and "json_loads ev (unfence (strip content)) = Some v"
    and "type_name v \<noteq> ''dict''"
  shows "translate_attempts ev strict (p # ps) last_exc = Some (Inl (no_attribute v ''get''))"
  using assms
  by (simp add: invoke_reply parse_decoded reply_candidate_not_object)

text \<open>The two steps are the loop, run on their prompts.\<close>

lemma from_english_attempts:
  "get_llm ev = None \<Longrightarrow> user_request state = Some req \<Longrightarrow>
   from_english ev state =
     translate_attempts ev (strict_json state = Some True)
       (english_prompts (strict_json state = Some True) req) None"
  by (simp add: from_english_def Let_def del: translate_attempts.simps)

lemma from_error_attempts:
  "get_llm ev = None \<Longrightarrow> last_command state = Some lc \<Longrightarrow> last_error state = Some le \<Longrightarrow>
   from_error ev state =
     translate_attempts ev (strict_json state = Some True)
       (error_prompts (strict_json state = Some True)
          (get_default (user_request state) []) (py_str (str_repr ev) lc) le) None"
  by (simp add: from_error_def Let_def del: translate_attempts.simps)

lemma english_prompts_Cons:
  "english_prompts strict req =
     (ENGLISH_PROMPT_HEAD @ req) #
       (if strict then [ENGLISH_PROMPT_HEAD @ req @ STRICT_SUFFIX] else [])"
  by (simp add: english_prompts_def Let_def)

lemma error_prompts_Cons:
  "\<exists>p ps. error_prompts strict intent lc le = p # ps"
  by (simp add: error_prompts_def Let_def)

text \<open>
  What the steps do when the provider returns in time or faults: they return, and when
  every call faults the candidate is the explain-only one with the fault's text. They
  raise when the client cannot be built.
\<close>

lemma from_english_returns:
  assumes "\<forall>p. llm ev p \<noteq> Never"
  shows "\<exists>r. from_english ev state = Some r"
proof (cases "get_llm ev")
  case None
  show ?thesis
  proof (cases "user_request state")
    case n: None
    with None show ?thesis by (simp add: from_english_def)
  next
    case (Some req)
    with None assms translate_attempts_returns show ?thesis
      by (simp add: from_english_attempts del: translate_attempts.simps)
  qed
next
  case (Some e)
  then show ?thesis by (simp add: from_english_def)
qed

lemma from_error_returns:
  assumes "\<forall>p. llm ev p \<noteq> Never"
  shows "\<exists>r. from_error ev state = Some r"
proof (cases "get_llm ev")
  case None
  show ?thesis
  proof (cases "last_command state")
    case n: None
    with None show ?thesis by (simp add: from_error_def)
  next
    case lc: (Some lc)
    show ?thesis
    proof (cases "last_error state")
      case n: None
      with None lc show ?thesis by (simp add: from_error_def)
    next
      case (Some le)
      with None lc assms translate_attempts_returns show ?thesis
        by (simp add: from_error_attempts del: translate_attempts.simps)
    qed
  qed
next
  case (Some e)
  then show ?thesis by (simp add: from_error_def)
qed

lemma replan_returns:
  assumes "\<forall>p. llm ev p \<noteq> Never"
  shows "\<exists>r. replan ev state = Some r"
proof (cases "get_llm ev")
  case None
  define prompt where "prompt = REPLAN_PROMPT_HEAD @
      py_str (str_repr ev) (value_default (candidate_command state) (JStr [])) @
      ''\<newline>Feedback: '' @ get_default (user_feedback state) ''Safer alternative'' @
      ''\<newline>''"
  from assms obtain r where r: "llm_invoke_with_timeout ev prompt = Some r"
    using invoke_never [of ev prompt] by auto
  show ?thesis
    unfolding replan_def Let_def prompt_def [symmetric]
    using None r by (auto split: sum.splits json.splits)
next
  case (Some e)
  then show ?thesis by (simp add: replan_def)
qed

lemma from_english_client_missing:
  "get_llm ev = Some e \<Longrightarrow> from_english ev state = Some (Inl e)"
  by (simp add: from_english_def)

lemma from_english_all_fault:
  assumes "get_llm ev = None" and "user_request state = Some req"
    and "\<forall>p. fault_of ev (llm ev p) \<noteq> None"
  shows "\<exists>e p. fault_of ev (llm ev p) = Some e \<and>
     from_english ev state =
       Some (Inr (candidate (JStr []) (JStr (''LLM error: '' @ err_str e)) ''explain''))"
proof -
  have "\<exists>e p. fault_of ev (llm ev p) = Some e \<and>
      translate_attempts ev (strict_json state = Some True)
        (english_prompts (strict_json state = Some True) req) None =
          Some (Inr (candidate (JStr []) (JStr (''LLM error: '' @ err_str e)) ''explain''))"
    by (rule translate_attempts_all_fault) (use assms in \<open>auto simp: english_prompts_def Let_def\<close>)
  then show ?thesis
    by (simp add: from_english_attempts [OF assms(1,2)])
qed

lemma from_error_all_fault:
  assumes "get_llm ev = None" and "last_command state = Some lc"
    and "last_error state = Some le" and "\<forall>p. fault_of ev (llm ev p) \<noteq> None"
  shows "\<exists>e p. fault_of ev (llm ev p) = Some e \<and>
     from_error ev state =
       Some (Inr (candidate (JStr []) (JStr (''LLM error: '' @ err_str e)) ''explain''))"
proof -
  have "\<exists>e p. fault_of ev (llm ev p) = Some e \<and>
      translate_attempts ev (strict_json state = Some True)
        (error_prompts (strict_json state = Some True) (get_default (user_request state) [])
           (py_str (str_repr ev) lc) le) None =
          Some (Inr (candidate (JStr []) (JStr (''LLM error: '' @ err_str e)) ''explain''))"
    by (rule translate_attempts_all_fault) (use assms in \<open>auto simp: error_prompts_def Let_def\<close>)
  then show ?thesis
    by (simp add: from_error_attempts [OF assms(1,2,3)])
qed

lemma from_english_quiet:
  "from_english quiet_env english_request =
     Some (Inr (candidate (JStr []) (JStr ''LLM error: connection refused'') ''explain''))"
  by (simp add: from_english_def english_prompts_def quiet_env_def base_env_def
      english_request_def empty_state_def llm_invoke_with_timeout_def)

lemma from_english_late:
  "from_english late_env english_request =
     Some (Inr (candidate (JStr []) (JStr ''LLM error: LLM request timed out'') ''explain''))"
  by (simp add: from_english_def english_prompts_def late_env_def base_env_def
      english_request_def empty_state_def llm_invoke_with_timeout_def)

lemma unfence_unquoted: "unfence (strip ''echo \"hi'') = ''echo \"hi''"
  by (simp add: unfence_def FENCE_def strip_def lstrip_def rstrip_def is_space_def)

lemma unparseable_unquoted: "unparseable (json_loads unquoted_env) ''echo \"hi''"
  by (simp add: unparseable_def unquoted_env_def base_env_def unfence_unquoted)

lemma from_error_unquoted:
  "from_error unquoted_env
     (empty_state\<lparr>last_command := Some (JStr ''echo hi''),
        last_error := Some ''sh: syntax error''\<rparr>) =
     Some (Inr (candidate (JStr ''echo \"hi'') (JStr PLAIN_TEXT_NOTE) ''run''))"
proof -
  have g: "get_llm unquoted_env = None" and r: "llm unquoted_env p = Reply ''echo \"hi''" for p
    by (simp_all add: unquoted_env_def base_env_def)
  obtain p ps where ps: "error_prompts False [] (py_str (str_repr unquoted_env) (JStr ''echo hi''))
      ''sh: syntax error'' = p # ps"
    using error_prompts_Cons by blast
  show ?thesis
    using translate_attempts_plain_text [OF unparseable_unquoted r, of False p ps None]
    by (simp add: from_error_attempts [OF g] empty_state_def ps unfence_unquoted
        del: translate_attempts.simps)
qed

text \<open>
  An answer that decodes to an object whose fields are strings gives a candidate, or,
  under \<open>strict_json\<close>, the next attempt: the loop raises only on other answers.
\<close>

lemma reply_candidate_string_fields:
  assumes "\<forall>v\<in>snd ` set kvs. \<exists>s. v = JStr s"
  shows "\<exists>r. reply_candidate strict (JObj kvs) = Inr r"
proof -
  have f: "\<exists>s. value_default (map_of kvs k) (JStr d) = JStr s"
    and g: "\<exists>s. value_or (map_of kvs k) (JStr d) = JStr s" for k d
    using assms by (cases "map_of kvs k"; force dest: map_of_SomeD)+
  from f [of "''explanation''" "[]"] g [of "''mode''" "''run''"] show ?thesis
    by (auto simp: reply_candidate_def as_str_def)
qed

text \<open>
  C4 (the code departs from the claim). The claim says that a translation step always
  returns a candidate, explain-only after a fault, and that a call that times out fails
  with a timeout instead of blocking. With a client that can be built and a request that
  carries its keys, for \<open>from_english\<close> and \<open>from_error\<close> alike:
  \<^item> when the provider's call never completes, neither does the step: leaving the
    \<open>with\<close> block of \<open>_llm_invoke_with_timeout\<close> waits for the worker, so no timeout is
    ever raised;
  \<^item> when the answer decodes to a JSON value that is not an object, the step raises
    \<open>AttributeError\<close> to its caller, from \<open>data.get\<close>, which is outside the \<open>try\<close>;
  \<^item> when the answer cannot be decoded and \<open>strict_json\<close> is not set, the step returns
    the answer's text as a command in mode \<open>run\<close>.
\<close>

theorem C4_translation_blocks_or_raises:
  "(get_llm ev = None \<and> user_request state = Some req \<and>
    llm ev (ENGLISH_PROMPT_HEAD @ req) = Never \<longrightarrow> from_english ev state = None) \<and>
   (get_llm ev = None \<and> last_command state = Some lc \<and> last_error state = Some le \<and>
    (\<forall>p. llm ev p = Never) \<longrightarrow> from_error ev state = None) \<and>
   (get_llm ev = None \<and> user_request state = Some req \<and>
    llm ev (ENGLISH_PROMPT_HEAD @ req) = Reply content \<and>
    json_loads ev (unfence (strip content)) = Some v \<and> type_name v \<noteq> ''dict'' \<longrightarrow>
      from_english ev state = Some (Inl (no_attribute v ''get''))) \<and>
   (get_llm ev = None \<and> last_command state = Some lc \<and> last_error state = Some le \<and>
    (\<forall>p. llm ev p = Reply content) \<and>
    json_loads ev (unfence (strip content)) = Some v \<and> type_name v \<noteq> ''dict'' \<longrightarrow>
      from_error ev state = Some (Inl (no_attribute v ''get''))) \<and>
   (get_llm ev = None \<and> user_request state = Some req \<and> strict_json state \<noteq> Some True \<and>
    llm ev (ENGLISH_PROMPT_HEAD @ req) = Reply content \<and>
    unparseable (json_loads ev) content \<longrightarrow>
      from_english ev state =
        Some (Inr (candidate (JStr (unfence (strip content))) (JStr PLAIN_TEXT_NOTE) ''run''))) \<and>
   (get_llm ev = None \<and> last_command state = Some lc \<and> last_error state = Some le \<and>
    strict_json state \<noteq> Some True \<and> (\<forall>p. llm ev p = Reply content) \<and>
    unparseable (json_loads ev) content \<longrightarrow>
      from_error ev state =
        Some (Inr (candidate (JStr (unfence (strip content))) (JStr PLAIN_TEXT_NOTE) ''run'')))"
proof -
  obtain p ps where ps: "error_prompts (strict_json state = Some True)
      (get_default (user_request state) []) (py_str (str_repr ev) lc) le = p # ps"
    using error_prompts_Cons by blast
  have a: "from_english ev state = None"
    if "get_llm ev = None" "user_request state = Some req"
      "llm ev (ENGLISH_PROMPT_HEAD @ req) = Never"
    using that translate_attempts_blocks [of ev "ENGLISH_PROMPT_HEAD @ req"]
    by (simp add: from_english_attempts english_prompts_Cons del: translate_attempts.simps)
  have b: "from_error ev state = None"
    if "get_llm ev = None" "last_command state = Some lc" "last_error state = Some le"
      "\<forall>p. llm ev p = Never"
    using that ps translate_attempts_blocks [of ev p]
    by (simp add: from_error_attempts del: translate_attempts.simps)
  have c: "from_english ev state = Some (Inl (no_attribute v ''get''))"
    if "get_llm ev = None" "user_request state = Some req"
      "llm ev (ENGLISH_PROMPT_HEAD @ req) = Reply content"
      "json_loads ev (unfence (strip content)) = Some v" "type_name v \<noteq> ''dict''"
    using that translate_attempts_not_object [of ev "ENGLISH_PROMPT_HEAD @ req" content v]
    by (simp add: from_english_attempts english_prompts_Cons del: translate_attempts.simps)
  have d: "from_error ev state = Some (Inl (no_attribute v ''get''))"
    if "get_llm ev = None" "last_command state = Some lc" "last_error state = Some le"
      "\<forall>p. llm ev p = Reply content"
      "json_loads ev (unfence (strip content)) = Some v" "type_name v \<noteq> ''dict''"
    using that ps translate_attempts_not_object [of ev p content v]
    by (simp add: from_error_attempts del: translate_attempts.simps)
  have e: "from_english ev state =
      Some (Inr (candidate (JStr (unfence (strip content))) (JStr PLAIN_TEXT_NOTE) ''run''))"
    if "get_llm ev = None" "user_request state = Some req" "strict_json state \<noteq> Some True"
      "llm ev (ENGLISH_PROMPT_HEAD @ req) = Reply content" "unparseable (json_loads ev) content"
    using that translate_attempts_plain_text
      [of ev content "ENGLISH_PROMPT_HEAD @ req" "strict_json state = Some True" "[]" None]
    by (simp add: from_english_attempts english_prompts_Cons del: translate_attempts.simps)
  have f: "from_error ev state =
      Some (Inr (candidate (JStr (unfence (strip content))) (JStr PLAIN_TEXT_NOTE) ''run''))"
    if "get_llm ev = None" "last_command state = Some lc" "last_error state = Some le"
      "strict_json state \<noteq> Some True" "\<forall>p. llm ev p = Reply content"
      "unparseable (json_loads ev) content"
    using that ps translate_attempts_plain_text
      [of ev content p "strict_json state = Some True" ps None]
    by (simp add: from_error_attempts del: translate_attempts.simps)
  from a b c d e f show ?thesis
    by blast
qed

theorem C4_translation_blocks_or_raises_witness:
  "from_english hanging_env english_request = None \<and>
   from_error hanging_env fix_request = None \<and>
   from_english number_env english_request =
     Some (Inl (AttributeError
       ([CHR 0x27] @ ''int'' @ [CHR 0x27] @ '' object has no attribute '' @
        [CHR 0x27] @ ''get'' @ [CHR 0x27]))) \<and>
   from_error number_env fix_request =
     Some (Inl (AttributeError
       ([CHR 0x27] @ ''int'' @ [CHR 0x27] @ '' object has no attribute '' @
        [CHR 0x27] @ ''get'' @ [CHR 0x27]))) \<and>
   from_english unquoted_env english_request =
     Some (Inr (candidate (JStr ''echo \"hi'') (JStr PLAIN_TEXT_NOTE) ''run'')) \<and>
   from_error unquoted_env fix_request =
     Some (Inr (candidate (JStr ''echo \"hi'') (JStr PLAIN_TEXT_NOTE) ''run''))"
proof -
  have req: "user_request english_request = Some ''say hi''"
    "strict_json english_request \<noteq> Some True"
    by (simp_all add: english_request_def empty_state_def)
  have fx: "last_command fix_request = Some (JStr ''ls -z'')"
    "last_error fix_request = Some ''ls: invalid option''"
    "strict_json fix_request \<noteq> Some True"
    by (simp_all add: fix_request_def empty_state_def)
  have h: "get_llm hanging_env = None" "llm hanging_env p = Never" for p
    by (simp_all add: hanging_env_def base_env_def)
  have n: "get_llm number_env = None" "llm number_env p = Reply ''42''"
    "json_loads number_env (unfence (strip ''42'')) = Some (JInt 42)" for p
    by (simp_all add: number_env_def base_env_def unfence_def FENCE_def strip_def lstrip_def
        rstrip_def is_space_def)
  have u: "get_llm unquoted_env = None" "llm unquoted_env p = Reply ''echo \"hi''" for p
    by (simp_all add: unquoted_env_def base_env_def)
  have 1: "from_english hanging_env english_request = None"
    using C4_translation_blocks_or_raises
      [where ev = hanging_env and state = english_request and req = "''say hi''"]
    by (simp add: req h)
  have 2: "from_error hanging_env fix_request = None"
    using C4_translation_blocks_or_raises
      [where ev = hanging_env and state = fix_request and lc = "JStr ''ls -z''"
        and le = "''ls: invalid option''"]
    by (simp add: fx h)
  have 3: "from_english number_env english_request = Some (Inl (no_attribute (JInt 42) ''get''))"
    using C4_translation_blocks_or_raises
      [where ev = number_env and state = english_request and req = "''say hi''"
        and content = "''42''" and v = "JInt 42"]
    by (simp add: req n)
  have 4: "from_error number_env fix_request = Some (Inl (no_attribute (JInt 42) ''get''))"
    using C4_translation_blocks_or_raises
      [where ev = number_env and state = fix_request and lc = "JStr ''ls -z''"
        and le = "''ls: invalid option''" and content = "''42''" and v = "JInt 42"]
    by (simp add: fx n)
  have 5: "from_english unquoted_env english_request =
      Some (Inr (candidate (JStr ''echo \"hi'') (JStr PLAIN_TEXT_NOTE) ''run''))"
    using C4_translation_blocks_or_raises
      [where ev = unquoted_env and state = english_request and req = "''say hi''"
        and content = "''echo \"hi''"]
    by (simp add: req u unparseable_unquoted unfence_unquoted)
  have 6: "from_error unquoted_env fix_request =
      Some (Inr (candidate (JStr ''echo \"hi'') (JStr PLAIN_TEXT_NOTE) ''run''))"
    using C4_translation_blocks_or_raises
      [where ev = unquoted_env and state = fix_request and lc = "JStr ''ls -z''"
        and le = "''ls: invalid option''" and content = "''echo \"hi''"]
    by (simp add: fx u unparseable_unquoted unfence_unquoted)
  from 1 2 3 4 5 6 show ?thesis
    by (simp add: no_attribute_def)
qed

section \<open>Results: the daemon\<close>

lemma danger_check_no_command:
  "danger_check (empty_state\<lparr>candidate_command := Some (JStr [])\<rparr>) =
     Inr (empty_state\<lparr>danger := Some True, danger_reasons := Some [''No command generated'']\<rparr>)"
  by (simp add: danger_check_def empty_state_def intent_keywords_def lower_def as_str_def)

text \<open>
  C10. A preexec request whose \<open>cmd\<close> is missing, empty or made of white space only is
  answered with the action \<open>proceed\<close>, the empty command, \<open>require_confirmation\<close> true and
  the one reason \<open>No command generated\<close>; so is it by the dispatcher and the server loop.
\<close>

theorem C10_preexec_blank_command:
  assumes "list_all is_space (get_default (p_cmd pl) [])"
  shows "handle_preexec ev pl =
           Some (Inr (Proceed [] True [''No command generated'']
                   (get_or (p_cwd pl) (getcwd ev)))) \<and>
         (p_event pl = Some ''preexec'' \<longrightarrow>
            serve_request ev pl =
              Some (Proceed [] True [''No command generated'']
                (get_or (p_cwd pl) (getcwd ev))))"
proof -
  from assms have blank: "strip (get_or (p_cmd pl) []) = []"
    by (simp add: get_or_Nil strip_blank)
  have pre: "handle_preexec ev pl =
      Some (Inr (Proceed [] True [''No command generated''] (get_or (p_cwd pl) (getcwd ev))))"
    unfolding handle_preexec_def Let_def blank
    by (simp add: danger_check_no_command get_list_def)
  then show ?thesis
    by (simp add: serve_request_def handle_event_def)
qed

theorem C10_preexec_blank_command_witness:
  "list_all is_space (get_default (p_cmd blank_preexec) []) \<and>
   p_event blank_preexec = Some ''preexec'' \<and>
   serve_request quiet_env blank_preexec =
     Some (Proceed [] True [''No command generated''] ''/home/user'') \<and>
   map_option action (serve_request quiet_env blank_preexec) = Some ''proceed'' \<and>
   map_option require_confirmation (serve_request quiet_env blank_preexec) = Some True \<and>
   map_option reasons_given (serve_request quiet_env blank_preexec) =
     Some [''No command generated'']"
proof -
  have blank: "list_all is_space (get_default (p_cmd blank_preexec) [])"
    by (simp add: blank_preexec_def is_space_def)
  have ev: "p_event blank_preexec = Some ''preexec''"
    by (simp add: blank_preexec_def)
  from C10_preexec_blank_command [OF blank, of quiet_env] ev
  have "serve_request quiet_env blank_preexec =
      Some (Proceed [] True [''No command generated''] ''/home/user'')"
    by (simp add: blank_preexec_def quiet_env_def base_env_def)
  with blank ev show ?thesis
    by (simp add: action_def)
qed

text \<open>
  C9 (the code departs from the claim). A postexec request with a non-zero exit code,
  for which the translation client suggests a command with an unclosed quote, is
  answered with an error object: the classifier raises inside the handler (the defect of
  C3), so the response is neither \<open>no_fix\<close> nor \<open>suggest_fix\<close>.
\<close>

theorem C9_postexec_error_on_unclosed_quote:
  "handle_postexec unquoted_env failed_postexec =
     Some (Inl (ValueError ''No closing quotation'')) \<and>
   serve_request unquoted_env failed_postexec =
     Some (Error_response ''No closing quotation'')"
proof -
  have "handle_postexec unquoted_env failed_postexec =
      Some (Inl (ValueError ''No closing quotation''))"
    unfolding handle_postexec_def failed_postexec_def
    by (simp add: from_error_unquoted)
      (simp add: danger_check_def candidate_def empty_state_def check_danger_value_def
        as_str_def check_danger_unclosed_quote strip_def lstrip_def rstrip_def is_space_def)
  then show ?thesis
    by (simp add: serve_request_def handle_event_def failed_postexec_def)
qed

text \<open>
  What the handler does when the steps it calls return: \<open>ok\<close> for exit code 0, without a
  call of the translation client; otherwise \<open>no_fix\<close> with the explanation when the
  suggestion is empty, and \<open>suggest_fix\<close> with the classifier's verdict on the suggestion.
\<close>

lemma handle_postexec_success: "p_exit_code pl = Some 0 \<or> p_exit_code pl = None \<Longrightarrow>
  handle_postexec ev pl = Some (Inr Ok)"
  by (auto simp: handle_postexec_def)

lemma danger_check_command_only:
  "s \<noteq> [] \<Longrightarrow> check_danger s = Inr v \<Longrightarrow>
   danger_check (empty_state\<lparr>candidate_command := Some (JStr s)\<rparr>) =
     Inr (empty_state\<lparr>danger := Some (is_danger v), danger_reasons := Some (reasons v)\<rparr>)"
  by (simp add: danger_check_def check_danger_value_def as_str_def empty_state_def
      intent_keywords_def lower_def)

lemma handle_postexec_failure:
  assumes "p_exit_code pl = Some code" and "code \<noteq> 0"
    and "from_error ev (empty_state\<lparr>last_command := Some (JStr (get_or (p_cmd pl) [])),
           last_error := Some (get_or (p_stderr_tail pl) [])\<rparr>) = Some (Inr out)"
    and "as_str ''strip'' (value_or (candidate_command out) (JStr [])) = Inr raw"
  shows "strip raw = [] \<Longrightarrow>
           handle_postexec ev pl =
             Some (Inr (No_fix (value_or (candidate_explanation out) (JStr []))))"
    and "strip raw \<noteq> [] \<Longrightarrow> check_danger (strip raw) = Inr v \<Longrightarrow>
           handle_postexec ev pl =
             Some (Inr (Suggest_fix (strip raw)
                    (value_or (candidate_explanation out) (JStr [])) (is_danger v) (reasons v)))"
  using assms
  by (simp_all add: handle_postexec_def Let_def danger_check_command_only get_list_def)

section \<open>Results: the workflow graph\<close>

lemma mem_dropWhile: "x \<in> set xs \<Longrightarrow> \<not> P x \<Longrightarrow> x \<in> set (dropWhile P xs)"
  by (induction xs) auto

lemma mem_strip: "c \<in> set s \<Longrightarrow> \<not> is_space c \<Longrightarrow> c \<in> set (strip s)"
  by (simp add: strip_def lstrip_def rstrip_def mem_dropWhile)

lemma contains_single: "contains [c] s \<longleftrightarrow> c \<in> set s"
  by (induction s) auto

text \<open>
  C5. A request whose only populated input is a direct command runs \<open>router\<close>, then
  \<open>from_direct\<close>, then \<open>run\<close>: the run node is reached, and the nodes run before it are
  these two, neither of which calls the translation client, classifies, or prompts.
\<close>

theorem C5_direct_reaches_run:
  assumes "direct_populated state" and "\<not> nl_populated state" and "\<not> err_populated state"
  shows "Run \<in> set (fst (run_graph ev (Suc (Suc (Suc k))) Router state ins)) \<and>
    takeWhile (\<lambda>n. n \<noteq> Run) (fst (run_graph ev (Suc (Suc (Suc k))) Router state ins)) =
      [Router, From_direct] \<and>
    (\<forall>n \<in> set (takeWhile (\<lambda>n. n \<noteq> Run)
                  (fst (run_graph ev (Suc (Suc (Suc k))) Router state ins))).
       \<not> invokes_translation n \<and> \<not> checks_danger n \<and> \<not> prompts_user n)"
proof -
  from assms have r: "route state = Inr ''from_direct''"
    by (simp add: route_def nl_populated_def err_populated_def direct_populated_def)
  have "\<exists>rest res. run_graph ev (Suc (Suc (Suc k))) Router state ins =
      (Router # From_direct # Run # rest, res)"
    by (simp add: route_merge_same next_node_def r Let_def no_input_def
        split: sum.splits option.splits prod.splits)
  then obtain rest res where "run_graph ev (Suc (Suc (Suc k))) Router state ins =
      (Router # From_direct # Run # rest, res)" by blast
  then show ?thesis by simp
qed

theorem C5_direct_reaches_run_witness:
  "direct_populated direct_request \<and> \<not> nl_populated direct_request \<and>
   \<not> err_populated direct_request \<and>
   Run \<in> set (fst (run_graph quiet_env (Suc (Suc (Suc 0))) Router direct_request [])) \<and>
   takeWhile (\<lambda>n. n \<noteq> Run) (fst (run_graph quiet_env (Suc (Suc (Suc 0))) Router direct_request [])) =
     [Router, From_direct]"
proof -
  have h: "direct_populated direct_request" "\<not> nl_populated direct_request"
    "\<not> err_populated direct_request"
    by (simp_all add: direct_request_def empty_state_def direct_populated_def nl_populated_def
        err_populated_def)
  from C5_direct_reaches_run [OF h, of quiet_env 0 "[]"] h show ?thesis
    by (simp del: run_graph.simps)
qed

text \<open>
  C6 (as stated, refuted). The claim says that the cancelled candidate gets a clarifying
  explanation. The candidate below has a placeholder in its command and carries the
  explanation the provider gave for it. The gate cancels it and returns that explanation
  unchanged: nothing in it says that the command was held back, or why.
\<close>

theorem C6_placeholder_keeps_own_explanation:
  "source explained_placeholder_state \<noteq> Some ''direct'' \<and>
   candidate_mode explained_placeholder_state = Some ''run'' \<and>
   candidate_command explained_placeholder_state = Some (JStr ''cd <directory_name>'') \<and>
   approval_gate explained_placeholder_state [] =
     Inr (empty_state\<lparr>approval := Some ''cancelled'', candidate_mode := Some ''explain'',
            candidate_explanation := Some (JStr ''Change into the directory'')\<rparr>, []) \<and>
   JStr ''Change into the directory'' \<noteq> JStr PLACEHOLDER_NOTE \<and>
   \<not> contains ''placeholder'' (lower ''Change into the directory'')"
  by (simp add: explained_placeholder_state_def placeholder_state_def empty_state_def
      approval_gate_def as_str_def strip_def lstrip_def rstrip_def is_space_def
      PLACEHOLDER_NOTE_def lower_def lower_char_def)

text \<open>
  C6 (amended). For a candidate that does not come from a direct command, in mode \<open>run\<close>,
  whose command is a text that contains both \<open><\<close> and \<open>>\<close>, the approval gate reads no
  input and returns the decision \<open>cancelled\<close> with mode \<open>explain\<close>. The explanation it
  returns is the candidate's own when that is not empty, and the note about placeholders
  only when the candidate has none. The graph then ends: from the approval gate the only
  node run is the gate itself, so \<open>run\<close> is not invoked.
\<close>

theorem C6_placeholder_cancelled:
  assumes "source state \<noteq> Some ''direct''" and "candidate_mode state = Some ''run''"
    and "candidate_command state = Some (JStr cmd)"
    and "contains ''<'' cmd" and "contains ''>'' cmd"
  shows "approval_gate state ins =
      Inr (empty_state\<lparr>approval := Some ''cancelled'', candidate_mode := Some ''explain'',
             candidate_explanation :=
               Some (value_or (candidate_explanation state) (JStr PLACEHOLDER_NOTE))\<rparr>, ins) \<and>
    (truthy_value (candidate_explanation state) \<longrightarrow>
       Some (value_or (candidate_explanation state) (JStr PLACEHOLDER_NOTE)) =
         candidate_explanation state) \<and>
    (\<not> truthy_value (candidate_explanation state) \<longrightarrow>
       value_or (candidate_explanation state) (JStr PLACEHOLDER_NOTE) = JStr PLACEHOLDER_NOTE) \<and>
    (\<exists>final. run_graph ev (Suc k) Approval_gate state ins = ([Approval_gate], Finished final) \<and>
       approval final = Some ''cancelled'' \<and> candidate_mode final = Some ''explain'' \<and>
       candidate_command final = Some (JStr cmd) \<and>
       candidate_explanation final =
         Some (value_or (candidate_explanation state) (JStr PLACEHOLDER_NOTE))) \<and>
    Run \<notin> set (fst (run_graph ev (Suc k) Approval_gate state ins))"
proof -
  from assms(4,5) have "CHR ''<'' \<in> set (strip cmd)" and "CHR ''>'' \<in> set (strip cmd)"
    by (auto simp: contains_single is_space_def intro!: mem_strip)
  then have ph: "strip cmd \<noteq> []" "contains ''<'' (strip cmd)" "contains ''>'' (strip cmd)"
    by (auto simp: contains_single)
  from ph(1) have ne: "cmd \<noteq> []"
    by (auto simp: strip_def lstrip_def rstrip_def)
  have raw: "as_str ''strip'' (value_or (candidate_command state) (JStr [])) = Inr cmd"
    using assms(3) ne by (simp add: as_str_def)
  have gate: "approval_gate state ins =
      Inr (empty_state\<lparr>approval := Some ''cancelled'', candidate_mode := Some ''explain'',
             candidate_explanation :=
               Some (value_or (candidate_explanation state) (JStr PLACEHOLDER_NOTE))\<rparr>, ins)"
    using assms(1,2) ph by (simp add: approval_gate_def raw)
  have own: "truthy_value (candidate_explanation state) \<Longrightarrow>
      Some (value_or (candidate_explanation state) (JStr PLACEHOLDER_NOTE)) =
        candidate_explanation state"
    by (cases "candidate_explanation state") auto
  have dflt: "\<not> truthy_value (candidate_explanation state) \<Longrightarrow>
      value_or (candidate_explanation state) (JStr PLACEHOLDER_NOTE) = JStr PLACEHOLDER_NOTE"
    by (cases "candidate_explanation state") auto
  have run: "run_graph ev (Suc k) Approval_gate state ins =
     ([Approval_gate], Finished (merge state
       (empty_state\<lparr>approval := Some ''cancelled'', candidate_mode := Some ''explain'',
          candidate_explanation :=
            Some (value_or (candidate_explanation state) (JStr PLACEHOLDER_NOTE))\<rparr>)))"
    by (simp add: gate next_node_def post_approval_def merge_def orelse_def)
  have "candidate_command (merge state
     (empty_state\<lparr>approval := Some ''cancelled'', candidate_mode := Some ''explain'',
        candidate_explanation :=
          Some (value_or (candidate_explanation state) (JStr PLACEHOLDER_NOTE))\<rparr>)) =
      Some (JStr cmd)"
    using assms(3) by (simp add: merge_def orelse_def empty_state_def)
  with run gate own dflt show ?thesis
    by (simp add: merge_def orelse_def)
qed

theorem C6_placeholder_cancelled_witness:
  "source explained_placeholder_state \<noteq> Some ''direct'' \<and>
   candidate_mode explained_placeholder_state = Some ''run'' \<and>
   candidate_command explained_placeholder_state = Some (JStr ''cd <directory_name>'') \<and>
   contains ''<'' ''cd <directory_name>'' \<and> contains ''>'' ''cd <directory_name>'' \<and>
   truthy_value (candidate_explanation explained_placeholder_state) \<and>
   approval_gate explained_placeholder_state [''y''] =
      Inr (empty_state\<lparr>approval := Some ''cancelled'', candidate_mode := Some ''explain'',
             candidate_explanation := Some (JStr ''Change into the directory'')\<rparr>, [''y'']) \<and>
   Run \<notin> set (fst (run_graph quiet_env (Suc 0) Approval_gate explained_placeholder_state [''y''])) \<and>
   \<not> truthy_value (candidate_explanation placeholder_state) \<and>
   approval_gate placeholder_state [''y''] =
      Inr (empty_state\<lparr>approval := Some ''cancelled'', candidate_mode := Some ''explain'',
             candidate_explanation := Some (JStr PLACEHOLDER_NOTE)\<rparr>, [''y''])"
proof -
  have h: "source explained_placeholder_state \<noteq> Some ''direct''"
    "candidate_mode explained_placeholder_state = Some ''run''"
    "candidate_command explained_placeholder_state = Some (JStr ''cd <directory_name>'')"
    "contains ''<'' ''cd <directory_name>''" "contains ''>'' ''cd <directory_name>''"
    by (simp_all add: explained_placeholder_state_def placeholder_state_def empty_state_def)
  have e: "candidate_explanation explained_placeholder_state =
      Some (JStr ''Change into the directory'')"
    by (simp add: explained_placeholder_state_def)
  have g: "source placeholder_state \<noteq> Some ''direct''"
    "candidate_mode placeholder_state = Some ''run''"
    "candidate_command placeholder_state = Some (JStr ''cd <directory_name>'')"
    by (simp_all add: placeholder_state_def empty_state_def)
  have f: "candidate_explanation placeholder_state = Some (JStr [])"
    by (simp add: placeholder_state_def)
  from C6_placeholder_cancelled [OF h, of "[''y'']" quiet_env 0]
    C6_placeholder_cancelled [OF g h(4,5), of "[''y'']" quiet_env 0] h e f show ?thesis
    by (simp del: run_graph.simps)
qed

section \<open>Results: the terminal's output context\<close>

lemma same_capture_refl: "same_capture t t"
  by (simp add: same_capture_def)

lemma same_capture_trans: "same_capture a b \<Longrightarrow> same_capture b c \<Longrightarrow> same_capture a c"
  by (simp add: same_capture_def)

lemma read_line_raw_frame: "read_line_raw kb t = (l, t2) \<Longrightarrow> same_capture t t2"
  by (auto simp: read_line_raw_def same_capture_def)

lemma prompt_fix_choice_frame: "prompt_fix_choice kb t = (c, t2) \<Longrightarrow> same_capture t t2"
  by (auto simp: prompt_fix_choice_def read_line_raw_def same_capture_def Let_def)

lemma gate_and_dispatch_frame: "same_capture t (gate_and_dispatch kb t cmd)"
  by (simp add: gate_and_dispatch_def same_capture_def Let_def)

text \<open>
  The repair loop, where it returns, leaves the buffer and the capture as they were; and
  it returns unless a call of the provider never completes.
\<close>

lemma handle_replan_frame:
  "handle_replan ev kb t base fb = Some t2 \<Longrightarrow> same_capture t t2"
  by (auto simp: handle_replan_def Let_def gate_and_dispatch_frame same_capture_refl
      split: option.splits sum.splits if_splits)

lemma handle_replan_returns:
  "\<forall>p. llm ev p \<noteq> Never \<Longrightarrow> \<exists>t2. handle_replan ev kb t base fb = Some t2"
  using replan_returns [of ev "empty_state\<lparr>candidate_command := Some (JStr base),
      user_feedback := Some fb\<rparr>"]
  by (auto simp: handle_replan_def Let_def split: option.splits sum.splits)

lemma no_fix_choice_frame:
  assumes "no_fix_choice ev kb t failed = Some t9"
  shows "same_capture t t9"
proof -
  obtain l t2 where a: "read_line_raw kb t = (l, t2)" by (cases "read_line_raw kb t")
  obtain fb t3 where b: "read_line_raw kb t2 = (fb, t3)" by (cases "read_line_raw kb t2")
  from a have 1: "same_capture t t2" by (rule read_line_raw_frame)
  from b have 2: "same_capture t2 t3" by (rule read_line_raw_frame)
  show ?thesis
  proof (cases "startswith (lower l) ''p''")
    case True
    with assms a b have "handle_replan ev kb t3 failed fb = Some t9"
      by (simp add: no_fix_choice_def)
    then have "same_capture t3 t9" by (rule handle_replan_frame)
    with 1 2 show ?thesis by (blast intro: same_capture_trans)
  next
    case False
    with assms a have "t9 = t2" by (simp add: no_fix_choice_def)
    with 1 show ?thesis by simp
  qed
qed

lemma no_fix_choice_returns:
  "\<forall>p. llm ev p \<noteq> Never \<Longrightarrow> \<exists>t9. no_fix_choice ev kb t failed = Some t9"
  using handle_replan_returns [of ev kb]
  by (auto simp: no_fix_choice_def split: prod.splits)

lemma apply_repair_frame:
  assumes "apply_repair ev kb t1 failed repaired = Some t9"
  shows "same_capture t1 t9"
proof -
  define t2 where "t2 = t1\<lparr>last_repair_suggestion := Some repaired,
      last_repaired_for_cmd := Some failed\<rparr>"
  have 2: "same_capture t1 t2" by (simp add: t2_def same_capture_def)
  obtain choice t3 where c: "prompt_fix_choice kb t2 = (choice, t3)"
    by (cases "prompt_fix_choice kb t2")
  then have 3: "same_capture t1 t3"
    using 2 prompt_fix_choice_frame by (blast intro: same_capture_trans)
  obtain fb t4 where r: "read_line_raw kb t3 = (fb, t4)" by (cases "read_line_raw kb t3")
  then have 4: "same_capture t1 t4"
    using 3 read_line_raw_frame by (blast intro: same_capture_trans)
  have 5: "handle_replan ev kb t4 failed fb = Some t9 \<Longrightarrow> same_capture t1 t9"
    using 4 handle_replan_frame by (blast intro: same_capture_trans)
  have 6: "same_capture t1 (gate_and_dispatch kb t3 repaired)"
    using 3 gate_and_dispatch_frame by (rule same_capture_trans)
  have 7: "same_capture t1 (gate_and_dispatch kb t2 repaired)"
    using 2 gate_and_dispatch_frame by (rule same_capture_trans)
  from assms 3 5 6 7 show ?thesis
    unfolding apply_repair_def Let_def t2_def [symmetric]
    by (auto simp: c r split: if_splits)
qed

lemma apply_repair_returns:
  "\<forall>p. llm ev p \<noteq> Never \<Longrightarrow> \<exists>t9. apply_repair ev kb t1 failed repaired = Some t9"
  using handle_replan_returns [of ev kb]
  by (auto simp: apply_repair_def Let_def split: prod.splits)

lemma try_auto_repair_frame:
  assumes "try_auto_repair ev kb t = Some t9"
  shows "same_capture t t9"
proof (cases "\<not> (truthy (last_failed_command t) \<and> truthy (last_error_text t)) \<or>
    \<not> auto_repair t \<or> repair_in_progress t")
  case True
  with assms have "t9 = t" by (auto simp: try_auto_repair_def split: if_splits)
  then show ?thesis by (simp add: same_capture_refl)
next
  case False
  define failed where "failed = the (last_failed_command t)"
  define t1 where "t1 = t\<lparr>repair_in_progress := True,
                   repair_attempts := (repair_attempts t)(failed \<mapsto>
                      (case repair_attempts t failed of None \<Rightarrow> 0 | Some n \<Rightarrow> n) + 1)\<rparr>"
  have 1: "same_capture t t1" by (simp add: t1_def same_capture_def)
  from assms False obtain t8 where t8: "t9 = t8\<lparr>repair_in_progress := False\<rparr>"
    and body: "(case repair_command_if_needed ev failed (the (last_error_text t)) of
                None \<Rightarrow> None
              | Some None \<Rightarrow> no_fix_choice ev kb t1 failed
              | Some (Some repaired) \<Rightarrow>
                  if strip repaired = [] then no_fix_choice ev kb t1 failed
                  else apply_repair ev kb t1 failed repaired) = Some t8"
    unfolding try_auto_repair_def Let_def failed_def [symmetric] t1_def [symmetric]
    by auto
  from body have "same_capture t1 t8"
    by (auto split: option.splits if_splits dest: no_fix_choice_frame apply_repair_frame)
  with 1 have "same_capture t t8" by (rule same_capture_trans)
  with t8 show ?thesis by (simp add: same_capture_def)
qed

lemma try_auto_repair_off: "\<not> auto_repair t \<Longrightarrow> try_auto_repair ev kb t = Some t"
  by (simp add: try_auto_repair_def)

lemma repair_command_if_needed_returns:
  "\<forall>p. llm ev p \<noteq> Never \<Longrightarrow> \<exists>r. repair_command_if_needed ev prev chunk = Some r"
  using from_error_returns [of ev "empty_state\<lparr>last_command := Some (JStr prev),
      last_error := Some chunk, dry_run := Some False, quiet := Some True,
      strict_json := Some True\<rparr>"]
  by (auto simp: repair_command_if_needed_def Let_def split: option.splits sum.splits)

lemma try_auto_repair_returns:
  assumes "\<forall>p. llm ev p \<noteq> Never"
  shows "\<exists>t9. try_auto_repair ev kb t = Some t9"
proof -
  obtain r where r: "repair_command_if_needed ev (the (last_failed_command t))
      (the (last_error_text t)) = Some r"
    using repair_command_if_needed_returns [OF assms] by blast
  show ?thesis
    unfolding try_auto_repair_def Let_def
    using r no_fix_choice_returns [OF assms, of kb] apply_repair_returns [OF assms, of kb]
    by (cases r) auto
qed

lemma try_auto_repair_blocks:
  "try_auto_repair ev kb t = None \<Longrightarrow> auto_repair t \<and> (\<exists>p. llm ev p = Never)"
  using try_auto_repair_off [of t ev kb] try_auto_repair_returns [of ev kb t]
  by auto

lemma finish_command_frame: "same_capture t (finish_command t)"
  by (simp add: finish_command_def same_capture_def)

lemma process_line_lines:
  assumes "process_line ev kb t line = Some t2"
  shows "last_output_lines t2 = last_output_lines t @ [line] \<and>
   max_context_lines t2 = max_context_lines t \<and> auto_repair t2 = auto_repair t"
proof -
  have f: "try_auto_repair ev kb u = Some u2 \<Longrightarrow>
      last_output_lines (finish_command u2) = last_output_lines u \<and>
      max_context_lines (finish_command u2) = max_context_lines u \<and>
      auto_repair (finish_command u2) = auto_repair u" for u u2
    using try_auto_repair_frame [of ev kb u u2]
    by (simp add: same_capture_def finish_command_def)
  from assms show ?thesis
    unfolding process_line_def Let_def
    by (auto simp: finish_command_def split: if_splits dest!: f)
qed

lemma process_line_blocks:
  assumes "process_line ev kb t line = None"
  shows "auto_repair t \<and> (\<exists>p. llm ev p = Never)"
proof -
  from assms obtain u where "try_auto_repair ev kb u = None" and "auto_repair u = auto_repair t"
    unfolding process_line_def Let_def
    by (auto split: if_splits)
  then show ?thesis
    using try_auto_repair_blocks [of ev kb u] by simp
qed

lemma process_lines_lines:
  "process_lines ev kb t ls = Some t2 \<Longrightarrow>
   last_output_lines t2 = last_output_lines t @ ls \<and>
   max_context_lines t2 = max_context_lines t \<and> auto_repair t2 = auto_repair t"
proof (induction ls arbitrary: t)
  case Nil
  then show ?case by simp
next
  case (Cons l ls)
  then obtain t1 where 1: "process_line ev kb t l = Some t1"
    and 2: "process_lines ev kb t1 ls = Some t2"
    by (auto split: option.splits)
  from process_line_lines [OF 1] Cons.IH [OF 2] show ?case by simp
qed

lemma process_lines_blocks:
  "process_lines ev kb t ls = None \<Longrightarrow> auto_repair t \<and> (\<exists>p. llm ev p = Never)"
proof (induction ls arbitrary: t)
  case Nil
  then show ?case by simp
next
  case (Cons l ls)
  show ?case
  proof (cases "process_line ev kb t l")
    case None
    then show ?thesis by (rule process_line_blocks)
  next
    case (Some t1)
    with Cons.prems have "process_lines ev kb t1 ls = None" by simp
    then have "auto_repair t1 \<and> (\<exists>p. llm ev p = Never)" by (rule Cons.IH)
    with process_line_lines [OF Some] show ?thesis by simp
  qed
qed

lemma append_output_context_buffer:
  assumes "append_output_context ev kb t chunk = Some t2"
  shows "max_context_lines t2 = max_context_lines t \<and> auto_repair t2 = auto_repair t \<and>
    (0 < max_context_lines t \<longrightarrow>
       last_output_lines t2 =
         drop (length (last_output_lines t @ splitlines chunk) - nat (max_context_lines t))
           (last_output_lines t @ splitlines chunk))"
proof -
  from assms obtain t1 where 1: "process_lines ev kb t (splitlines chunk) = Some t1"
    by (auto simp: append_output_context_def split: option.splits)
  from assms 1 process_lines_lines [OF 1] show ?thesis
    by (auto simp: append_output_context_def last_n_def split: if_splits)
qed

lemma append_output_context_bounded:
  assumes "0 < max_context_lines t" and "append_output_context ev kb t chunk = Some t2"
  shows "int (length (last_output_lines t2)) \<le> max_context_lines t"
  using assms append_output_context_buffer [OF assms(2)]
  by auto

lemma append_output_context_blocks:
  "append_output_context ev kb t chunk = None \<Longrightarrow> auto_repair t \<and> (\<exists>p. llm ev p = Never)"
  using process_lines_blocks [of ev kb t "splitlines chunk"]
  by (auto simp: append_output_context_def split: option.splits if_splits)

text \<open>
  A terminal whose repair is switched off, as it is from \<open>__init__\<close>, takes every chunk,
  and its buffer stays within the capacity.
\<close>

lemma append_chunks_bounded:
  assumes "\<not> auto_repair t" and "0 < max_context_lines t"
    and "int (length (last_output_lines t)) \<le> max_context_lines t"
  shows "\<exists>t2. append_chunks ev kb t chunks = Some t2 \<and>
    max_context_lines t2 = max_context_lines t \<and>
    int (length (last_output_lines t2)) \<le> max_context_lines t"
  using assms
proof (induction chunks arbitrary: t)
  case Nil
  then show ?case by simp
next
  case (Cons c cs)
  from Cons.prems(1) obtain t1 where 1: "append_output_context ev kb t c = Some t1"
    using append_output_context_blocks [of ev kb t c] by (cases "append_output_context ev kb t c") auto
  from append_output_context_buffer [OF 1]
  have a: "max_context_lines t1 = max_context_lines t" "auto_repair t1 = auto_repair t"
    by simp_all
  from append_output_context_bounded [OF Cons.prems(2) 1]
  have b: "int (length (last_output_lines t1)) \<le> max_context_lines t" .
  from a b Cons.prems Cons.IH [of t1] 1 show ?case by simp
qed

lemma contains_set: "contains sub s \<Longrightarrow> set sub \<subseteq> set s"
proof (induction s)
  case Nil
  then show ?case by simp
next
  case (Cons c cs)
  have sw: "startswith xs p \<Longrightarrow> set p \<subseteq> set xs" for xs p
    by (induction xs p rule: startswith.induct) auto
  from Cons.prems consider "startswith (c # cs) sub" | "contains sub cs"
    by auto
  then show ?case
  proof cases
    case 1
    then show ?thesis by (rule sw)
  next
    case 2
    then have "set sub \<subseteq> set cs" by (rule Cons.IH)
    then show ?thesis by auto
  qed
qed

lemma set_dropWhile_cover: "set xs \<subseteq> set (dropWhile P xs) \<union> {x. P x}"
  by (induction xs) auto

lemma digits_ok_chars: "digits_ok b cs \<Longrightarrow> \<forall>c\<in>set cs. is_digit c \<or> c = CHR ''_''"
  by (induction b cs rule: digits_ok.induct) (auto split: if_splits)

lemma py_int_chars:
  assumes "py_int limit s = Some n"
  shows "\<forall>c\<in>set s. int_space c \<or> is_digit c \<or> c = CHR ''_'' \<or> c = CHR ''-'' \<or> c = CHR ''+''"
proof -
  define body where "body = rev (dropWhile int_space (rev (dropWhile int_space s)))"
  define unsigned where "unsigned =
    (case body of [] \<Rightarrow> [] | c # cs \<Rightarrow> if c = CHR ''-'' \<or> c = CHR ''+'' then cs else c # cs)"
  from assms have ok: "digits_ok False unsigned"
    unfolding py_int_def Let_def body_def [symmetric] unsigned_def [symmetric]
    by (auto split: if_splits)
  have "\<forall>x\<in>set body. is_digit x \<or> x = CHR ''_'' \<or> x = CHR ''-'' \<or> x = CHR ''+''"
  proof (cases body)
    case Nil
    then show ?thesis by simp
  next
    case (Cons b bs)
    with digits_ok_chars [OF ok] show ?thesis
      by (auto simp: unsigned_def split: if_splits)
  qed
  moreover have "set s \<subseteq> set body \<union> {c. int_space c}"
  proof -
    have "set s \<subseteq> set (dropWhile int_space s) \<union> {c. int_space c}"
      by (rule set_dropWhile_cover)
    moreover have "set (dropWhile int_space s) \<subseteq> set body \<union> {c. int_space c}"
      unfolding body_def using set_dropWhile_cover [of "rev (dropWhile int_space s)" int_space]
      by simp
    ultimately show ?thesis by blast
  qed
  ultimately show ?thesis by auto
qed

lemma set_slice_cover:
  "set xs \<subseteq> set (take a xs) \<union> set (slice xs a b) \<union> set (drop b xs)"
proof -
  have "xs = take a xs @ drop a xs" by simp
  moreover have "drop a xs = take (b - a) (drop a xs) @ drop (b - a) (drop a xs)"
    by (rule append_take_drop_id [symmetric])
  moreover have "set (drop (b - a) (drop a xs)) \<subseteq> set (drop b xs)"
    by (cases "a \<le> b") (auto simp: set_drop_subset_set_drop)
  ultimately have "set xs \<subseteq> set (take a xs) \<union> set (take (b - a) (drop a xs)) \<union> set (drop b xs)"
    by (metis (no_types, lifting) Un_assoc Un_mono set_append subset_refl)
  then show ?thesis by (simp add: slice_def)
qed

lemma startswith_take: "startswith s p \<Longrightarrow> take (length p) s = p"
  by (induction s p rule: startswith.induct) auto

lemma endswith_drop: "endswith s p \<Longrightarrow> drop (length s - length p) s = p"
proof -
  assume "endswith s p"
  then have "take (length (rev p)) (rev s) = rev p"
    unfolding endswith_def by (rule startswith_take)
  then have "rev (take (length p) (rev s)) = p" by simp
  then show ?thesis by (simp add: rev_take)
qed

lemma lower_char_not_m:
  "int_space c \<or> is_digit c \<or> c = CHR ''_'' \<or> c = CHR ''-'' \<or> c = CHR ''+'' \<or>
   c \<in> set STATUS_PREFIX \<or> c = CHR '']'' \<Longrightarrow> lower_char c \<noteq> CHR ''m''"
  by (auto simp: lower_char_def int_space_def is_digit_def in_range_def STATUS_PREFIX_def
      char_of_def bit_Suc_0_iff Let_def)

text \<open>
  A status line that carries a non-zero code does not contain \<open>command not found\<close>: its
  code is made of digits, signs, underscores and white space.
\<close>

lemma status_line_not_command_not_found:
  assumes "is_status_line line" and "status_code ev line \<noteq> 0"
  shows "\<not> contains ''command not found'' (lower line)"
proof
  assume "contains ''command not found'' (lower line)"
  then have "CHR ''m'' \<in> set (lower line)"
    using contains_set by fastforce
  then obtain c where c: "c \<in> set line" "lower_char c = CHR ''m''"
    by (auto simp: lower_def)
  from assms(2) obtain n where "py_int (int_max_str_digits ev)
      (slice line (length STATUS_PREFIX) (length line - 2)) = Some n"
    by (auto simp: status_code_def split: option.splits)
  then have code: "\<forall>x\<in>set (slice line (length STATUS_PREFIX) (length line - 2)).
      int_space x \<or> is_digit x \<or> x = CHR ''_'' \<or> x = CHR ''-'' \<or> x = CHR ''+''"
    by (rule py_int_chars)
  from assms(1) have pre: "take (length STATUS_PREFIX) line = STATUS_PREFIX"
    and suf: "drop (length line - 2) line = '']]''"
    using startswith_take [of line STATUS_PREFIX] endswith_drop [of line "'']]''"]
    by (simp_all add: is_status_line_def numeral_2_eq_2)
  from c(1) set_slice_cover [of line "length STATUS_PREFIX" "length line - 2"] pre suf code
  have "int_space c \<or> is_digit c \<or> c = CHR ''_'' \<or> c = CHR ''-'' \<or> c = CHR ''+'' \<or>
      c \<in> set STATUS_PREFIX \<or> c = CHR '']''"
    by auto
  then have "lower_char c \<noteq> CHR ''m''" by (rule lower_char_not_m)
  with c(2) show False by simp
qed

text \<open>
  The code of a status line is read as \<open>int\<close> reads it: a separator that \<open>str.strip\<close>
  would remove, or more digits than the limit, make it 0.
\<close>

lemma status_code_separator:
  "status_code ev (''[[AI:STATUS:2'' @ [CHR 0x1F] @ '']]'') = 0"
  by (simp add: status_code_def STATUS_PREFIX_def slice_def py_int_def int_space_def
      is_digit_def in_range_def)

lemma status_code_two:
  "0 < int_max_str_digits ev \<Longrightarrow> status_code ev ''[[AI:STATUS:2]]'' = 2"
  by (simp add: status_code_def STATUS_PREFIX_def slice_def py_int_def int_space_def
      is_digit_def in_range_def)

text \<open>
  C7. When a status line with a non-zero code is processed while a command is pending
  with recorded offset \<open>O\<close>, and the buffer then holds \<open>N\<close> lines (the status line is the
  last of them), the captured error text is the lines \<open>[O, N - 1)\<close> of the buffer joined
  by newlines, and the captured command is the pending one. The repair attempt that
  follows does not change either. The round completes, unless the repair is switched on
  and a call of the provider never completes.
\<close>

theorem C7_sentinel_capture:
  assumes "pending_cmd t = Some c" and "is_status_line line" and "status_code ev line \<noteq> 0"
  shows "case process_line ev kb t line of
           Some t2 \<Rightarrow>
             last_error_text t2 =
               Some (join_nl (slice (last_output_lines t @ [line]) (pending_output_start t)
                                (length (last_output_lines t @ [line]) - 1))) \<and>
             last_failed_command t2 = Some c \<and>
             last_output_lines t2 = last_output_lines t @ [line]
         | None \<Rightarrow> auto_repair t \<and> (\<exists>p. llm ev p = Never)"
proof (cases "process_line ev kb t line")
  case None
  then show ?thesis
    using process_line_blocks [of ev kb t line] by simp
next
  case (Some t2)
  have nf: "\<not> contains ''command not found'' (lower line)"
    using assms(2,3) by (rule status_line_not_command_not_found)
  define t1 where "t1 = t\<lparr>last_output_lines := last_output_lines t @ [line],
      last_failed_command := Some c,
      last_error_text := Some (join_nl (drop (pending_output_start t) (last_output_lines t)))\<rparr>"
  from Some assms nf obtain u where u: "try_auto_repair ev kb t1 = Some u"
    and t2: "t2 = finish_command u"
    unfolding process_line_def Let_def t1_def by auto
  from try_auto_repair_frame [OF u] have "same_capture t1 u" .
  then have "same_capture t1 t2"
    using finish_command_frame [of u] t2 by (auto intro: same_capture_trans)
  moreover have "slice (last_output_lines t @ [line]) (pending_output_start t)
       (length (last_output_lines t)) =
     drop (pending_output_start t) (last_output_lines t)"
    by (simp add: slice_def)
  ultimately show ?thesis
    using Some by (simp add: same_capture_def t1_def)
qed

theorem C7_sentinel_capture_witness:
  "pending_cmd failing_terminal = Some ''ls -z'' \<and> is_status_line ''[[AI:STATUS:2]]'' \<and>
   status_code quiet_env ''[[AI:STATUS:2]]'' = 2 \<and> pending_output_start failing_terminal = 2 \<and>
   \<not> auto_repair failing_terminal \<and>
   (\<exists>t2. process_line quiet_env (\<lambda>k. None) failing_terminal ''[[AI:STATUS:2]]'' = Some t2 \<and>
      last_error_text t2 = Some ''ls: invalid option -- z'' \<and>
      last_failed_command t2 = Some ''ls -z'')"
proof -
  have b: "pending_cmd failing_terminal = Some ''ls -z''"
    "pending_output_start failing_terminal = 2"
    "last_output_lines failing_terminal = [''$ ls'', ''total 0'', ''ls: invalid option -- z'']"
    "\<not> auto_repair failing_terminal"
    by (simp_all add: failing_terminal_def tracked_terminal_def mark_pending_def
        init_terminal_def)
  have s: "is_status_line ''[[AI:STATUS:2]]''"
    by (simp add: is_status_line_def STATUS_PREFIX_def endswith_def)
  have c: "status_code quiet_env ''[[AI:STATUS:2]]'' = 2"
    by (simp add: status_code_two quiet_env_def base_env_def)
  then have c0: "status_code quiet_env ''[[AI:STATUS:2]]'' \<noteq> 0"
    by simp
  from C7_sentinel_capture [OF b(1) s c0, where kb = "\<lambda>k. None"] s c b show ?thesis
    by (cases "process_line quiet_env (\<lambda>k. None) failing_terminal ''[[AI:STATUS:2]]''")
      (simp_all add: slice_def)
qed

text \<open>
  The whole of \<open>append_output_context\<close> on the chunk that the shell prints for the failed
  command: its error line, then the empty line and the status line of the prompt hook.
\<close>

lemma append_output_context_captures_failure:
  "map_option last_error_text (append_output_context quiet_env (\<lambda>k. None) tracked_terminal
     ''ls: invalid option -- z\<newline>\<newline>[[AI:STATUS:2]]\<newline>'') =
     Some (Some ''ls: invalid option -- z\<newline>'')"
  by (simp add: tracked_terminal_def mark_pending_def init_terminal_def
      append_output_context_def splitlines_def is_linebreak_def process_line_def Let_def
      is_status_line_def STATUS_PREFIX_def lower_def lower_char_def endswith_def
      status_code_def slice_def py_int_def int_space_def quiet_env_def base_env_def
      is_digit_def in_range_def try_auto_repair_def finish_command_def)

text \<open>
  C8. With a positive capacity, when \<open>append_output_context\<close> has completed the buffer
  holds at most \<open>max_context_lines\<close> lines, and it is the old buffer followed by the new
  lines with the oldest lines dropped from the front. The call completes, unless the
  repair is switched on and a call of the provider never completes. The capacity is never
  changed; it is 100 from \<open>__init__\<close>, and a new terminal takes any sequence of chunks
  and then holds at most 100 lines.
\<close>

theorem C8_ring_buffer_bounded:
  "(0 < max_context_lines t \<longrightarrow>
      (case append_output_context ev kb t chunk of
         Some t2 \<Rightarrow>
           int (length (last_output_lines t2)) \<le> max_context_lines t \<and>
           last_output_lines t2 =
             drop (length (last_output_lines t @ splitlines chunk) - nat (max_context_lines t))
               (last_output_lines t @ splitlines chunk)
       | None \<Rightarrow> auto_repair t \<and> (\<exists>p. llm ev p = Never))) \<and>
   (case append_output_context ev kb t chunk of
      Some t2 \<Rightarrow> max_context_lines t2 = max_context_lines t
    | None \<Rightarrow> auto_repair t \<and> (\<exists>p. llm ev p = Never)) \<and>
   max_context_lines (init_terminal d q) = 100 \<and>
   (\<exists>t3. append_chunks ev kb (init_terminal d q) chunks = Some t3 \<and>
      int (length (last_output_lines t3)) \<le> 100)"
proof -
  have init: "max_context_lines (init_terminal d q) = 100"
    "last_output_lines (init_terminal d q) = []" "\<not> auto_repair (init_terminal d q)"
    by (simp_all add: init_terminal_def)
  have seq: "\<exists>t3. append_chunks ev kb (init_terminal d q) chunks = Some t3 \<and>
      int (length (last_output_lines t3)) \<le> 100"
    using append_chunks_bounded [of "init_terminal d q" ev kb chunks] init by auto
  show ?thesis
  proof (cases "append_output_context ev kb t chunk")
    case None
    show ?thesis
      unfolding None option.case
      using append_output_context_blocks [OF None] init(1) seq by blast
  next
    case (Some t2)
    from append_output_context_buffer [OF Some]
    have cap: "max_context_lines t2 = max_context_lines t"
      and buf: "0 < max_context_lines t \<Longrightarrow> last_output_lines t2 =
         drop (length (last_output_lines t @ splitlines chunk) - nat (max_context_lines t))
           (last_output_lines t @ splitlines chunk)"
      by blast+
    have bound: "0 < max_context_lines t \<Longrightarrow>
        int (length (last_output_lines t2)) \<le> max_context_lines t"
      using append_output_context_bounded [OF _ Some] .
    show ?thesis
      unfolding Some option.case
      using cap buf bound init(1) seq by blast
  qed
qed

theorem C8_ring_buffer_bounded_witness:
  "0 < max_context_lines small_terminal \<and> \<not> auto_repair small_terminal \<and>
   last_output_lines small_terminal @ splitlines ''b\<newline>c'' = [''a'', ''b'', ''c''] \<and>
   (\<exists>t2. append_output_context quiet_env (\<lambda>k. None) small_terminal ''b\<newline>c'' = Some t2 \<and>
      last_output_lines t2 = [''b'', ''c''] \<and> int (length (last_output_lines t2)) \<le> 2)"
proof -
  have m: "max_context_lines small_terminal = 2"
    "last_output_lines small_terminal = [''a'']" "\<not> auto_repair small_terminal"
    by (simp_all add: small_terminal_def init_terminal_def)
  have l: "splitlines ''b\<newline>c'' = [''b'', ''c'']"
    by (simp add: splitlines_def is_linebreak_def)
  from C8_ring_buffer_bounded [where t = small_terminal and ev = quiet_env
      and kb = "\<lambda>k. None" and chunk = "''b\<newline>c''"] m l
  show ?thesis
    by (cases "append_output_context quiet_env (\<lambda>k. None) small_terminal ''b\<newline>c''") simp_all
qed

end
